theory Spec2Isabelle
  imports Complex_Main "HOL-Library.Sublist" "HOL-Library.Word" "HOL-Library.AList"
begin

section \<open>JavaScript values\<close>

text \<open>
  The middleware (\<^verbatim>\<open>scripts/app.js\<close>) is an Express server. Request bodies and
  backend replies are JSON values. A string is a list of code units below 256; a number
  is the double it denotes, written as the rational it equals, with the three special
  doubles as constructors of their own. Arrays are not modelled.
\<close>

datatype jsnum = NaN | NegInf | Dbl rat | PosInf

datatype jsval =
    JUndefined
  | JNull
  | JBool bool
  | JNum jsnum
  | JStr string
  | JObj "(string \<times> jsval) list"

text \<open>Comparison of numbers: every comparison with \<open>NaN\<close> is false.\<close>

fun js_le :: "jsnum \<Rightarrow> jsnum \<Rightarrow> bool" where
  "js_le NaN _ = False"
| "js_le _ NaN = False"
| "js_le NegInf _ = True"
| "js_le _ PosInf = True"
| "js_le (Dbl a) (Dbl b) = (a \<le> b)"
| "js_le _ _ = False"

fun js_lt :: "jsnum \<Rightarrow> jsnum \<Rightarrow> bool" where
  "js_lt NaN _ = False"
| "js_lt _ NaN = False"
| "js_lt NegInf NegInf = False"
| "js_lt NegInf _ = True"
| "js_lt PosInf _ = False"
| "js_lt _ PosInf = True"
| "js_lt (Dbl a) (Dbl b) = (a < b)"
| "js_lt _ _ = False"

definition js_gt :: "jsnum \<Rightarrow> jsnum \<Rightarrow> bool" where
  "js_gt a b = js_lt b a"

text \<open>Truthiness, as \<^verbatim>\<open>!x\<close> and \<^verbatim>\<open>x || y\<close> read it.\<close>

fun js_truthy :: "jsval \<Rightarrow> bool" where
  "js_truthy JUndefined = False"
| "js_truthy JNull = False"
| "js_truthy (JBool b) = b"
| "js_truthy (JNum n) = (n \<noteq> NaN \<and> n \<noteq> Dbl 0)"
| "js_truthy (JStr s) = (s \<noteq> [])"
| "js_truthy (JObj _) = True"

text \<open>Property read \<^verbatim>\<open>v.k\<close> on a value that is neither null nor undefined.\<close>

fun js_prop :: "jsval \<Rightarrow> string \<Rightarrow> jsval" where
  "js_prop (JObj kvs) k = (case map_of kvs k of Some v \<Rightarrow> v | None \<Rightarrow> JUndefined)"
| "js_prop _ k = JUndefined"

definition js_nullish :: "jsval \<Rightarrow> bool" where
  "js_nullish v = (v = JUndefined \<or> v = JNull)"

subsection \<open>The runtime and the libraries\<close>

text \<open>
  What the JavaScript runtime, \<^verbatim>\<open>web3\<close> and \<^verbatim>\<open>crypto\<close> compute is not code of the
  repository. It is a parameter of every definition below, so each theorem holds for
  whatever these functions are:
  \<^item> \<open>to_double q\<close>: the double nearest to the rational \<open>q\<close>;
  \<^item> \<open>num_to_string n\<close>: \<^verbatim>\<open>String(n)\<close> for a number;
  \<^item> \<open>isAddress s\<close>: \<^verbatim>\<open>web3.utils.isAddress\<close> on a string;
  \<^item> \<open>toWei v\<close>: \<^verbatim>\<open>web3.utils.toWei(v.toString(), 'ether')\<close>, \<open>Inl\<close> the message of
    the error it throws;
  \<^item> \<open>privateKeyToAddress k\<close>: the address of \<^verbatim>\<open>web3.eth.accounts.privateKeyToAccount(k)\<close>;
  \<^item> \<open>signTransaction tx k\<close>: the raw signed transaction, or the error thrown;
  \<^item> \<open>json_parse s\<close>: \<^verbatim>\<open>JSON.parse\<close>, \<open>Inl\<close> the message of the SyntaxError;
  \<^item> \<open>gcm_encrypt key iv p\<close>: AES-256-GCM, the ciphertext and the authentication tag;
  \<^item> \<open>gcm_decrypt key iv c t\<close>: the plaintext, or \<open>None\<close> when the library throws: in
    \<^verbatim>\<open>final()\<close> because the tag does not verify, or earlier because it does not accept
    the IV or the tag.
\<close>

type_synonym byte = "8 word"

text \<open>A string that may hold any UTF-16 code unit (the plaintext of the key vault).\<close>

type_synonym ustring = "16 word list"

record tx_object =
  tx_nonce :: nat
  tx_to :: string
  tx_value :: nat
  tx_gasLimit :: nat
  tx_gasPrice :: nat

record lib =
  to_double :: "rat \<Rightarrow> jsnum"
  num_to_string :: "jsnum \<Rightarrow> string"
  isAddress :: "string \<Rightarrow> bool"
  toWei :: "jsval \<Rightarrow> string + nat"
  privateKeyToAddress :: "string \<Rightarrow> string"
  signTransaction :: "tx_object \<Rightarrow> ustring \<Rightarrow> string + string"
  json_parse :: "string \<Rightarrow> string + jsval"
  gcm_encrypt :: "byte list \<Rightarrow> byte list \<Rightarrow> byte list \<Rightarrow> byte list \<times> byte list"
  gcm_decrypt :: "byte list \<Rightarrow> byte list \<Rightarrow> byte list \<Rightarrow> byte list \<Rightarrow> byte list option"

fun js_to_string :: "lib \<Rightarrow> jsval \<Rightarrow> string" where
  "js_to_string L JUndefined = ''undefined''"
| "js_to_string L JNull = ''null''"
| "js_to_string L (JBool b) = (if b then ''true'' else ''false'')"
| "js_to_string L (JNum n) = num_to_string L n"
| "js_to_string L (JStr s) = s"
| "js_to_string L (JObj _) = ''[object Object]''"

definition is_address :: "lib \<Rightarrow> jsval \<Rightarrow> bool" where
  "is_address L v = (case v of JStr s \<Rightarrow> isAddress L s | _ \<Rightarrow> False)"

subsection \<open>parseFloat\<close>

text \<open>
  \<^verbatim>\<open>parseFloat\<close> drops leading white space and reads the longest prefix that is a
  decimal literal: a sign, then \<^verbatim>\<open>Infinity\<close> or digits with an optional fraction and
  an optional exponent. No such prefix gives \<open>NaN\<close>.
\<close>

definition is_digit :: "char \<Rightarrow> bool" where
  "is_digit c = (48 \<le> (of_char c :: nat) \<and> (of_char c :: nat) \<le> 57)"

definition is_space :: "char \<Rightarrow> bool" where
  "is_space c = ((of_char c :: nat) \<in> {9, 10, 11, 12, 13, 32, 160})"

definition digits_val :: "string \<Rightarrow> nat" where
  "digits_val ds = foldl (\<lambda>acc c. 10 * acc + ((of_char c :: nat) - 48)) 0 ds"

text \<open>The exponent part: \<open>e\<close> or \<open>E\<close>, a sign, at least one digit; otherwise it is not read.\<close>

definition exponent_part :: "string \<Rightarrow> int" where
  "exponent_part s =
     (case s of
        [] \<Rightarrow> 0
      | c # r \<Rightarrow>
          if c = CHR ''e'' \<or> c = CHR ''E'' then
            (case r of
               [] \<Rightarrow> 0
             | d # r' \<Rightarrow>
                 if d = CHR ''-'' then - int (digits_val (takeWhile is_digit r'))
                 else if d = CHR ''+'' then int (digits_val (takeWhile is_digit r'))
                 else int (digits_val (takeWhile is_digit r)))
          else 0)"

definition scale10 :: "rat \<Rightarrow> int \<Rightarrow> rat" where
  "scale10 m e = (if 0 \<le> e then m * 10 ^ nat e else m / 10 ^ nat (- e))"

text \<open>The unsigned literal: \<open>None\<close> when there is none, else its exact value or infinity.\<close>

definition unsigned_literal :: "string \<Rightarrow> rat option option" where
  "unsigned_literal s =
     (if prefix ''Infinity'' s then Some None
      else
        let ip = takeWhile is_digit s;
            r1 = dropWhile is_digit s;
            fp = (case r1 of c # r \<Rightarrow> if c = CHR ''.'' then takeWhile is_digit r else [] | [] \<Rightarrow> []);
            r2 = (case r1 of c # r \<Rightarrow> if c = CHR ''.'' then dropWhile is_digit r else r1 | [] \<Rightarrow> [])
        in if ip = [] \<and> fp = [] then None
           else Some (Some (scale10 (of_nat (digits_val (ip @ fp)))
                               (exponent_part r2 - int (length fp)))))"

definition parse_float_string :: "lib \<Rightarrow> string \<Rightarrow> jsnum" where
  "parse_float_string L s =
     (let t = dropWhile is_space s;
          neg = (case t of c # _ \<Rightarrow> c = CHR ''-'' | [] \<Rightarrow> False);
          u = (case t of c # r \<Rightarrow> if c = CHR ''-'' \<or> c = CHR ''+'' then r else t | [] \<Rightarrow> [])
      in case unsigned_literal u of
           None \<Rightarrow> NaN
         | Some None \<Rightarrow> (if neg then NegInf else PosInf)
         | Some (Some q) \<Rightarrow> to_double L (if neg then - q else q))"

text \<open>
  \<^verbatim>\<open>parseFloat(v)\<close> first converts \<open>v\<close> to a string. A number prints as a literal that
  reads back as itself; \<^verbatim>\<open>true\<close>, \<^verbatim>\<open>null\<close>, \<^verbatim>\<open>undefined\<close> and
  \<^verbatim>\<open>[object Object]\<close> have no numeric prefix.
\<close>

fun parseFloat :: "lib \<Rightarrow> jsval \<Rightarrow> jsnum" where
  "parseFloat L (JStr s) = parse_float_string L s"
| "parseFloat L (JNum n) = n"
| "parseFloat L _ = NaN"

section \<open>The key vault\<close>

subsection \<open>Hex and UTF-8\<close>

text \<open>\<^verbatim>\<open>buf.toString('hex')\<close>: two lower-case digits for each byte.\<close>

definition hex_char :: "nat \<Rightarrow> char" where
  "hex_char n = (if n < 10 then char_of (48 + n) else char_of (87 + n))"

fun hex_encode :: "byte list \<Rightarrow> string" where
  "hex_encode [] = []"
| "hex_encode (b # bs) = hex_char (unat b div 16) # hex_char (unat b mod 16) # hex_encode bs"

text \<open>
  \<^verbatim>\<open>Buffer.from(s, 'hex')\<close>: pairs of hex digits of either case, up to the first pair
  that is not one; a last single character is dropped.
\<close>

definition hex_val :: "char \<Rightarrow> nat option" where
  "hex_val c =
     (let n = (of_char c :: nat)
      in if 48 \<le> n \<and> n \<le> 57 then Some (n - 48)
         else if 97 \<le> n \<and> n \<le> 102 then Some (n - 87)
         else if 65 \<le> n \<and> n \<le> 70 then Some (n - 55)
         else None)"

fun hex_decode :: "string \<Rightarrow> byte list" where
  "hex_decode (a # b # r) =
     (case hex_val a of
        None \<Rightarrow> []
      | Some h \<Rightarrow> (case hex_val b of
                     None \<Rightarrow> []
                   | Some l \<Rightarrow> of_nat (16 * h + l) # hex_decode r))"
| "hex_decode _ = []"

text \<open>
  Encoding a string as UTF-8 (\<^verbatim>\<open>cipher.update(text, 'utf8', ...)\<close>): a surrogate pair is
  one code point of four bytes; a surrogate without its partner is written as U+FFFD.
\<close>

definition is_high :: "16 word \<Rightarrow> bool" where
  "is_high u = (55296 \<le> unat u \<and> unat u < 56320)"

definition is_low :: "16 word \<Rightarrow> bool" where
  "is_low u = (56320 \<le> unat u \<and> unat u < 57344)"

definition utf8_of_cp :: "nat \<Rightarrow> byte list" where
  "utf8_of_cp cp =
     (if cp < 128 then [of_nat cp]
      else if cp < 2048 then [of_nat (192 + cp div 64), of_nat (128 + cp mod 64)]
      else if cp < 65536 then
        [of_nat (224 + cp div 4096), of_nat (128 + (cp div 64) mod 64), of_nat (128 + cp mod 64)]
      else
        [of_nat (240 + cp div 262144), of_nat (128 + (cp div 4096) mod 64),
         of_nat (128 + (cp div 64) mod 64), of_nat (128 + cp mod 64)])"

fun utf8_encode :: "ustring \<Rightarrow> byte list" where
  "utf8_encode [] = []"
| "utf8_encode [u] = (if is_high u \<or> is_low u then utf8_of_cp 65533 else utf8_of_cp (unat u))"
| "utf8_encode (u # v # r) =
     (if is_high u then
        (if is_low v
         then utf8_of_cp (65536 + (unat u - 55296) * 1024 + (unat v - 56320)) @ utf8_encode r
         else utf8_of_cp 65533 @ utf8_encode (v # r))
      else if is_low u then utf8_of_cp 65533 @ utf8_encode (v # r)
      else utf8_of_cp (unat u) @ utf8_encode (v # r))"

text \<open>
  Decoding UTF-8 (\<^verbatim>\<open>decipher.update(..., 'hex', 'utf8')\<close>): a well-formed sequence gives
  its code point, as one code unit or as a surrogate pair; anything else gives U+FFFD for
  the longest prefix that starts a well-formed sequence.
\<close>

definition is_cont :: "byte \<Rightarrow> bool" where
  "is_cont b = (128 \<le> unat b \<and> unat b < 192)"

definition second_ok :: "byte \<Rightarrow> byte \<Rightarrow> bool" where
  "second_ok b c =
     (if unat b = 224 then 160 \<le> unat c \<and> unat c < 192
      else if unat b = 237 then 128 \<le> unat c \<and> unat c < 160
      else if unat b = 240 then 144 \<le> unat c \<and> unat c < 192
      else if unat b = 244 then 128 \<le> unat c \<and> unat c < 144
      else is_cont c)"

definition units_of_cp :: "nat \<Rightarrow> ustring" where
  "units_of_cp cp =
     (if cp < 65536 then [of_nat cp]
      else [of_nat (55296 + (cp - 65536) div 1024), of_nat (56320 + (cp - 65536) mod 1024)])"

fun utf8_decode :: "byte list \<Rightarrow> ustring" where
  "utf8_decode [] = []"
| "utf8_decode (b # bs) =
     (if unat b < 128 then of_nat (unat b) # utf8_decode bs
      else if 194 \<le> unat b \<and> unat b < 224 then
        (case bs of
           c # r \<Rightarrow>
             if is_cont c
             then units_of_cp ((unat b - 192) * 64 + (unat c - 128)) @ utf8_decode r
             else 65533 # utf8_decode bs
         | [] \<Rightarrow> [65533])
      else if 224 \<le> unat b \<and> unat b < 240 then
        (case bs of
           c # r \<Rightarrow>
             if second_ok b c then
               (case r of
                  d # r' \<Rightarrow>
                    if is_cont d
                    then units_of_cp ((unat b - 224) * 4096 + (unat c - 128) * 64 + (unat d - 128))
                         @ utf8_decode r'
                    else 65533 # utf8_decode r
                | [] \<Rightarrow> [65533])
             else 65533 # utf8_decode bs
         | [] \<Rightarrow> [65533])
      else if 240 \<le> unat b \<and> unat b < 245 then
        (case bs of
           c # r \<Rightarrow>
             if second_ok b c then
               (case r of
                  d # r' \<Rightarrow>
                    if is_cont d then
                      (case r' of
                         e # r'' \<Rightarrow>
                           if is_cont e
                           then units_of_cp ((unat b - 240) * 262144 + (unat c - 128) * 4096
                                              + (unat d - 128) * 64 + (unat e - 128))
                                @ utf8_decode r''
                           else 65533 # utf8_decode r'
                       | [] \<Rightarrow> [65533])
                    else 65533 # utf8_decode r
                | [] \<Rightarrow> [65533])
             else 65533 # utf8_decode bs
         | [] \<Rightarrow> [65533])
      else 65533 # utf8_decode bs)"

subsection \<open>encrypt and decrypt\<close>

text \<open>
  \<^verbatim>\<open>WALLET_ENC_KEY\<close> must be 64 hex characters, or the process exits at start
  (\<open>None\<close>); \<open>ENCRYPTION_KEY\<close> is the 32 bytes it denotes.
\<close>

definition ENCRYPTION_KEY :: "string \<Rightarrow> byte list option" where
  "ENCRYPTION_KEY w =
     (if w = [] then None
      else if length w \<noteq> 64 \<or> \<not> list_all (\<lambda>c. hex_val c \<noteq> None) w then None
      else Some (hex_decode w))"

record encrypted =
  enc_iv :: string
  enc_content :: string
  enc_tag :: string

text \<open>\<open>encrypt\<close> draws a fresh 16-byte IV, here the argument \<open>iv\<close>.\<close>

definition encrypt :: "lib \<Rightarrow> byte list \<Rightarrow> byte list \<Rightarrow> ustring \<Rightarrow> encrypted" where
  "encrypt L key iv text =
     (let (ct, authTag) = gcm_encrypt L key iv (utf8_encode text)
      in \<lparr>enc_iv = hex_encode iv, enc_content = hex_encode ct, enc_tag = hex_encode authTag\<rparr>)"

datatype vault_error = IntegrityError | NotFound string

definition decrypt :: "lib \<Rightarrow> byte list \<Rightarrow> encrypted \<Rightarrow> vault_error + ustring" where
  "decrypt L key e =
     (case gcm_decrypt L key (hex_decode (enc_iv e)) (hex_decode (enc_content e))
             (hex_decode (enc_tag e)) of
        None \<Rightarrow> Inl IntegrityError
      | Some p \<Rightarrow> Inr (utf8_decode p))"

subsection \<open>The wallet store\<close>

text \<open>
  \<^verbatim>\<open>wallet-store.json\<close> holds one record for each user id. The store is the list of
  its entries in the order \<^verbatim>\<open>Object.entries\<close> gives them.
\<close>

record wallet_record =
  encryptedKey :: encrypted
  address :: string
  createdAt :: nat
  userName :: jsval

type_synonym wallet_store = "(string \<times> wallet_record) list"

text \<open>\<^verbatim>\<open>s.toLowerCase()\<close> on code units below 256.\<close>

definition lower_char :: "char \<Rightarrow> char" where
  "lower_char c =
     (let n = (of_char c :: nat)
      in if (65 \<le> n \<and> n \<le> 90) \<or> (192 \<le> n \<and> n \<le> 222 \<and> n \<noteq> 215)
         then char_of (n + 32) else c)"

definition toLowerCase :: "string \<Rightarrow> string" where
  "toLowerCase s = map lower_char s"

text \<open>
  \<open>getPrivateKeyForWallet\<close>: the loop over the entries returns at the first record whose
  address matches; after the loop it throws.
\<close>

fun getPrivateKeyForWallet ::
  "lib \<Rightarrow> byte list \<Rightarrow> wallet_store \<Rightarrow> string \<Rightarrow> vault_error + ustring" where
  "getPrivateKeyForWallet L key [] walletAddress = Inl (NotFound walletAddress)"
| "getPrivateKeyForWallet L key ((userId, walletData) # rest) walletAddress =
     (if toLowerCase (address walletData) = toLowerCase walletAddress
      then decrypt L key (encryptedKey walletData)
      else getPrivateKeyForWallet L key rest walletAddress)"

section \<open>The backend and the chain\<close>

text \<open>
  The PHP backend and the chain node answer over the network. What they answer is the
  environment \<open>env\<close>; what the middleware asks of them is recorded as a list of events,
  in the order of the calls.
\<close>

datatype http_result = NetworkError string | HttpResponse nat string string

datatype backend_call =
    EmailLookup jsval
  | PostWebhook jsval
  | PutWallet jsval

record receipt =
  transactionHash :: string
  rc_status :: bool
  blockNumber :: nat
  blockHash :: string
  transactionIndex :: nat
  gasUsed :: nat

datatype event =
    Fetch backend_call
  | ChainGetBalance string
  | ChainGetTransactionCount string
  | ChainGetGasPrice
  | ChainSendSigned string
  | ContractSendPayment string nat

text \<open>
  \<open>fetch\<close> is the backend's answer to a request; the next seven fields are the answers
  of the chain node to the calls of \<^verbatim>\<open>web3.eth\<close> and of the deployed contract, \<open>Inl\<close>
  the message of a rejected promise; the receipt of a transaction depends on the time
  of the query. \<open>NETWORK_MODE\<close> is the environment variable (empty when unset),
  \<open>deployer\<close> the first account of the node, \<open>date_now\<close> the reading of
  \<^verbatim>\<open>Date.now()\<close> and \<open>random_suffix\<close> the nine characters drawn from
  \<^verbatim>\<open>Math.random()\<close> for a transaction id.
\<close>

record env =
  fetch :: "backend_call \<Rightarrow> http_result"
  getBalance :: "string \<Rightarrow> string + nat"
  getTransactionCount :: "string \<Rightarrow> string + nat"
  getGasPrice :: "string + nat"
  sendSignedTransaction :: "string \<Rightarrow> string + receipt"
  sendPaymentToWallet :: "string \<Rightarrow> nat \<Rightarrow> string + receipt"
  getTransactionReceipt :: "string \<Rightarrow> nat \<Rightarrow> string + receipt option"
  getBlock :: "nat \<Rightarrow> string + nat option"
  NETWORK_MODE :: string
  deployer :: string
  date_now :: nat
  random_suffix :: string

function string_of_nat :: "nat \<Rightarrow> string" where
  "string_of_nat n =
     (if n < 10 then [char_of (48 + n)]
      else string_of_nat (n div 10) @ [char_of (48 + n mod 10)])"
  by pat_completeness auto
termination
  by (relation "measure id") auto

definition type_error :: "string \<Rightarrow> string" where
  "type_error k = ''Cannot read properties of null (reading '' @ [CHR 0x27] @ k @ [CHR 0x27] @ '')''"

definition response_ok :: "nat \<Rightarrow> bool" where
  "response_ok st = (200 \<le> st \<and> st < 300)"

definition network_mode :: "env \<Rightarrow> jsval" where
  "network_mode E = JStr (if NETWORK_MODE E = [] then ''local'' else NETWORK_MODE E)"

text \<open>The object spread \<^verbatim>\<open>{...a, ...b}\<close>: a key of \<open>b\<close> replaces the same key of \<open>a\<close>.\<close>

definition spread :: "(string \<times> jsval) list \<Rightarrow> (string \<times> jsval) list \<Rightarrow> (string \<times> jsval) list" where
  "spread a b = fold (\<lambda>kv. AList.update (fst kv) (snd kv)) b a"

definition failure :: "string \<Rightarrow> jsval" where
  "failure m = JObj [(''success'', JBool False), (''error'', JStr m)]"

subsection \<open>Identity resolver\<close>

definition getWalletByEmail :: "lib \<Rightarrow> env \<Rightarrow> jsval \<Rightarrow> string + jsval" where
  "getWalletByEmail L E email =
     (case fetch E (EmailLookup email) of
        NetworkError m \<Rightarrow> Inl m
      | HttpResponse st stt txt \<Rightarrow>
          (case json_parse L txt of
             Inl m \<Rightarrow> Inl m
           | Inr data \<Rightarrow>
               if js_nullish data then Inl (type_error ''success'')
               else if js_truthy (js_prop data ''success'') \<and> js_truthy (js_prop data ''user'')
                       \<and> js_truthy (js_prop (js_prop data ''user'') ''wallet_address'')
               then Inr (js_prop (js_prop data ''user'') ''wallet_address'')
               else Inl (''Wallet not found for email: '' @ js_to_string L email)))"

subsection \<open>Ledger recorder\<close>

text \<open>
  \<open>createTransactionPHP\<close> never throws: a network error, a status outside 2xx and a reply
  that is not JSON all become \<^verbatim>\<open>{success: false, error}\<close>.
\<close>

definition createTransactionPHP :: "lib \<Rightarrow> env \<Rightarrow> (string \<times> jsval) list \<Rightarrow> jsval" where
  "createTransactionPHP L E payload =
     (case fetch E (PostWebhook (JObj (spread [(''action'', JStr ''create_full'')] payload))) of
        NetworkError m \<Rightarrow> failure m
      | HttpResponse st stt txt \<Rightarrow>
          if \<not> response_ok st then failure (''HTTP '' @ string_of_nat st @ '': '' @ stt)
          else (case json_parse L txt of
                  Inl m \<Rightarrow> failure m
                | Inr result \<Rightarrow> result))"

definition create_event :: "(string \<times> jsval) list \<Rightarrow> event" where
  "create_event payload = Fetch (PostWebhook (JObj (spread [(''action'', JStr ''create_full'')] payload)))"

definition update_body :: "string \<Rightarrow> string \<Rightarrow> (string \<times> jsval) list \<Rightarrow> jsval" where
  "update_body txHash status extra =
     JObj (spread [(''txHash'', JStr txHash), (''tx_hash'', JStr txHash), (''status'', JStr status)]
                  extra)"

definition updateTransactionStatusPHP ::
  "lib \<Rightarrow> env \<Rightarrow> string \<Rightarrow> string \<Rightarrow> (string \<times> jsval) list \<Rightarrow> jsval" where
  "updateTransactionStatusPHP L E txHash status extra =
     (case fetch E (PostWebhook (update_body txHash status extra)) of
        NetworkError m \<Rightarrow> failure m
      | HttpResponse st stt txt \<Rightarrow>
          if \<not> response_ok st
          then failure (''HTTP '' @ string_of_nat st @ '': '' @ stt @ '' - '' @ txt)
          else (case json_parse L txt of
                  Inl m \<Rightarrow>
                    JObj [(''success'', JBool False),
                          (''error'', JStr (''Invalid JSON response: '' @ take 200 txt @ ''...'')),
                          (''http_status'', JNum (Dbl (of_nat st)))]
                | Inr result \<Rightarrow> result))"

record dual_record =
  r_type :: string
  r_result :: jsval
  r_payload :: "(string \<times> jsval) list"

definition dual_payload ::
  "env \<Rightarrow> string \<Rightarrow> jsval \<Rightarrow> jsval \<Rightarrow> jsval \<Rightarrow> jsval \<Rightarrow> string \<Rightarrow> bool \<Rightarrow> (string \<times> jsval) list" where
  "dual_payload E transactionId senderWallet receiverWallet amount memo role outbound =
     [(''transaction_id'', JStr (transactionId @ ''_'' @ role)),
      (''wallet_address'', if outbound then senderWallet else receiverWallet),
      (''from_address'', senderWallet),
      (''to_address'', receiverWallet),
      (''amount'', amount),
      (''currency_symbol'', JStr ''ETH''),
      (''transaction_type'', JStr (if outbound then ''send'' else ''receive'')),
      (''direction'', JStr (if outbound then ''outbound'' else ''inbound'')),
      (''status'', JStr ''pending''),
      (''memo'', memo),
      (''network_mode'', network_mode E)]"

text \<open>
  \<open>createDualTransactionRecords\<close>: the sender's record, then the receiver's; each is kept
  when the backend reports success. Reading \<^verbatim>\<open>.success\<close> of a \<^verbatim>\<open>null\<close> reply throws
  inside the \<^verbatim>\<open>try\<close>, whose \<^verbatim>\<open>catch\<close> returns the records made so far. The result is
  the list of records and the events.
\<close>

definition createDualTransactionRecords ::
  "lib \<Rightarrow> env \<Rightarrow> jsval \<Rightarrow> jsval \<Rightarrow> jsval \<Rightarrow> jsval \<Rightarrow> string \<Rightarrow> dual_record list \<times> event list" where
  "createDualTransactionRecords L E senderWallet receiverWallet amount memo transactionId =
     (let senderPayload = dual_payload E transactionId senderWallet receiverWallet amount memo ''sender'' True;
          receiverPayload = dual_payload E transactionId senderWallet receiverWallet amount memo ''receiver'' False;
          senderResult = createTransactionPHP L E senderPayload
      in if js_nullish senderResult then ([], [create_event senderPayload])
         else
           let records1 = (if js_truthy (js_prop senderResult ''success'')
                           then [\<lparr>r_type = ''sender'', r_result = senderResult, r_payload = senderPayload\<rparr>]
                           else []);
               receiverResult = createTransactionPHP L E receiverPayload;
               evs = [create_event senderPayload, create_event receiverPayload]
           in if js_nullish receiverResult then (records1, evs)
              else if js_truthy (js_prop receiverResult ''success'')
              then (records1 @ [\<lparr>r_type = ''receiver'', r_result = receiverResult, r_payload = receiverPayload\<rparr>], evs)
              else (records1, evs))"

definition dual_update_extra :: "dual_record \<Rightarrow> (string \<times> jsval) list \<Rightarrow> (string \<times> jsval) list" where
  "dual_update_extra r extra =
     spread [(''transaction_id'', js_prop (JObj (r_payload r)) ''transaction_id''),
             (''transaction_db_id'', js_prop (r_result r) ''transaction_db_id'')] extra"

text \<open>\<open>updateDualTransactionStatus\<close>: one update for each record; it never throws.\<close>

definition updateDualTransactionStatus ::
  "lib \<Rightarrow> env \<Rightarrow> dual_record list \<Rightarrow> string \<Rightarrow> string \<Rightarrow> (string \<times> jsval) list
     \<Rightarrow> jsval list \<times> event list" where
  "updateDualTransactionStatus L E records txHash status extra =
     (map (\<lambda>r. let updateResult = updateTransactionStatusPHP L E txHash status (dual_update_extra r extra)
                in if js_nullish updateResult
                   then JObj [(''type'', JStr (r_type r)), (''success'', JBool False),
                              (''error'', JStr (type_error ''success''))]
                   else JObj [(''type'', JStr (r_type r)), (''success'', js_prop updateResult ''success'')])
          records,
      map (\<lambda>r. Fetch (PostWebhook (update_body txHash status (dual_update_extra r extra)))) records)"

subsection \<open>Chain submitter\<close>

definition vault_message :: "vault_error \<Rightarrow> string" where
  "vault_message e =
     (case e of
        IntegrityError \<Rightarrow> ''Unsupported state or unable to authenticate data''
      | NotFound a \<Rightarrow> ''Private key not found for wallet: '' @ a)"

text \<open>
  \<open>sendTransactionWithPrivateKey\<close>: the key, the nonce, the gas price, the signature,
  the broadcast. An error at any step is thrown again to the caller (\<open>Inl\<close>).
\<close>

definition sendTransactionWithPrivateKey ::
  "lib \<Rightarrow> env \<Rightarrow> byte list \<Rightarrow> wallet_store \<Rightarrow> string \<Rightarrow> string \<Rightarrow> nat \<Rightarrow> nat
     \<Rightarrow> (string + receipt) \<times> event list" where
  "sendTransactionWithPrivateKey L E key store fromWallet toWallet amountWei gasLimit =
     (case getPrivateKeyForWallet L key store fromWallet of
        Inl e \<Rightarrow> (Inl (vault_message e), [])
      | Inr privateKey \<Rightarrow>
          (case getTransactionCount E fromWallet of
             Inl m \<Rightarrow> (Inl m, [ChainGetTransactionCount fromWallet])
           | Inr nonce \<Rightarrow>
               (case getGasPrice E of
                  Inl m \<Rightarrow> (Inl m, [ChainGetTransactionCount fromWallet, ChainGetGasPrice])
                | Inr gasPrice \<Rightarrow>
                    (case signTransaction L
                            \<lparr>tx_nonce = nonce, tx_to = toWallet, tx_value = amountWei,
                             tx_gasLimit = gasLimit, tx_gasPrice = gasPrice\<rparr> privateKey of
                       Inl m \<Rightarrow> (Inl m, [ChainGetTransactionCount fromWallet, ChainGetGasPrice])
                     | Inr raw \<Rightarrow>
                         (sendSignedTransaction E raw,
                          [ChainGetTransactionCount fromWallet, ChainGetGasPrice,
                           ChainSendSigned raw])))))"

section \<open>The payment orchestrator\<close>

record http_reply =
  code :: nat
  body :: jsval

record watch_task =
  w_txHash :: string
  w_records :: "dual_record list"

text \<open>
  What a request handler does: the reply it sends, the calls it made to the backend and
  the chain, and the settlement watcher it left running, if any.
\<close>

record outcome =
  reply :: http_reply
  events :: "event list"
  watch :: "watch_task option"

definition respond :: "nat \<Rightarrow> (string \<times> jsval) list \<Rightarrow> event list \<Rightarrow> outcome" where
  "respond c kvs evs = \<lparr>reply = \<lparr>code = c, body = JObj kvs\<rparr>, events = evs, watch = None\<rparr>"

text \<open>The handler's outer \<^verbatim>\<open>catch\<close>: a thrown error is answered with a 500.\<close>

definition thrown :: "string \<Rightarrow> event list \<Rightarrow> outcome" where
  "thrown m evs = respond 500 [(''success'', JBool False), (''error'', JStr m)] evs"

text \<open>\<^verbatim>\<open>a === b\<close>: two objects parsed from the body are never the same object.\<close>

fun js_strict_eq :: "jsval \<Rightarrow> jsval \<Rightarrow> bool" where
  "js_strict_eq (JObj _) _ = False"
| "js_strict_eq _ (JObj _) = False"
| "js_strict_eq (JNum x) (JNum y) = (x \<noteq> NaN \<and> x = y)"
| "js_strict_eq a b = (a = b)"

fun str_of :: "jsval \<Rightarrow> string" where
  "str_of (JStr s) = s"
| "str_of _ = []"

text \<open>
  Both payment handlers run the same steps once the two addresses are known: the
  balance check, the two pending records, the broadcast, the \<^verbatim>\<open>submitted\<close> update, the
  watcher. \<open>evs\<close> are the events so far; \<open>message\<close> and \<open>parties\<close> are the fields of the
  reply in which the handlers differ.
\<close>

definition payment ::
  "lib \<Rightarrow> env \<Rightarrow> byte list \<Rightarrow> wallet_store \<Rightarrow> string \<Rightarrow> string \<Rightarrow> jsval \<Rightarrow> jsval \<Rightarrow> string
     \<Rightarrow> event list \<Rightarrow> string \<Rightarrow> (string \<times> jsval) list \<Rightarrow> outcome" where
  "payment L E key store fromWallet toWallet amountEth memo transactionId evs message parties =
     (case getBalance E fromWallet of
        Inl m \<Rightarrow> thrown m (evs @ [ChainGetBalance fromWallet])
      | Inr senderBalance \<Rightarrow>
          let senderBalanceEth = to_double L (of_nat senderBalance / 10 ^ 18);
              amountFloat = parseFloat L amountEth;
              evs1 = evs @ [ChainGetBalance fromWallet]
          in if js_lt senderBalanceEth amountFloat then
               respond 400 [(''error'', JStr ''Insufficient balance''),
                            (''available'', JStr (num_to_string L senderBalanceEth)),
                            (''required'', JStr (num_to_string L amountFloat))] evs1
             else
               let (dualRecords, cev) =
                     createDualTransactionRecords L E (JStr fromWallet) (JStr toWallet) amountEth memo
                       transactionId
               in if length dualRecords = 0 then
                    thrown ''Failed to create transaction records'' (evs1 @ cev)
                  else
                    (case toWei L amountEth of
                       Inl m \<Rightarrow> thrown m (evs1 @ cev)
                     | Inr amountWei \<Rightarrow>
                         (case sendTransactionWithPrivateKey L E key store fromWallet toWallet
                                 amountWei 200000 of
                            (Inl m, sev) \<Rightarrow> thrown m (evs1 @ cev @ sev)
                          | (Inr tx, sev) \<Rightarrow>
                              let (updates, uev) =
                                    updateDualTransactionStatus L E dualRecords (transactionHash tx)
                                      ''submitted'' []
                              in \<lparr>reply =
                                    \<lparr>code = 200,
                                     body = JObj ([(''success'', JBool True),
                                                   (''transaction_id'', JStr transactionId),
                                                   (''txHash'', JStr (transactionHash tx)),
                                                   (''status'', JStr ''submitted''),
                                                   (''message'', JStr message)]
                                                  @ parties
                                                  @ [(''amount'', amountEth),
                                                     (''records_created'',
                                                      JNum (Dbl (of_nat (length dualRecords))))])\<rparr>,
                                  events = evs1 @ cev @ sev @ uev,
                                  watch = Some \<lparr>w_txHash = transactionHash tx,
                                                w_records = dualRecords\<rparr>\<rparr>)))"

definition fresh_id :: "env \<Rightarrow> string \<Rightarrow> string" where
  "fresh_id E pre = pre @ ''_'' @ string_of_nat (date_now E) @ ''_'' @ random_suffix E"

text \<open>\<^verbatim>\<open>POST /payment/email-to-email\<close>\<close>

definition email_to_email ::
  "lib \<Rightarrow> env \<Rightarrow> byte list \<Rightarrow> wallet_store \<Rightarrow> jsval \<Rightarrow> jsval \<Rightarrow> jsval \<Rightarrow> jsval \<Rightarrow> outcome" where
  "email_to_email L E key store fromEmail toEmail amountEth memo =
     (if \<not> js_truthy fromEmail \<or> \<not> js_truthy toEmail \<or> \<not> js_truthy amountEth then
        respond 400 [(''error'', JStr ''fromEmail, toEmail, and amountEth are required'')] []
      else if js_strict_eq fromEmail toEmail then
        respond 400 [(''error'', JStr ''Cannot send payment to yourself'')] []
      else if js_le (parseFloat L amountEth) (Dbl 0) then
        respond 400 [(''error'', JStr ''Amount must be greater than 0'')] []
      else if js_gt (parseFloat L amountEth) (Dbl 1000) then
        respond 400 [(''error'', JStr ''Payment amount cannot exceed 1000 ETH'')] []
      else
        (case getWalletByEmail L E fromEmail of
           Inl m \<Rightarrow> respond 404 [(''error'', JStr m)] [Fetch (EmailLookup fromEmail)]
         | Inr fromWallet \<Rightarrow>
             (case getWalletByEmail L E toEmail of
                Inl m \<Rightarrow>
                  respond 404 [(''error'', JStr m)]
                    [Fetch (EmailLookup fromEmail), Fetch (EmailLookup toEmail)]
              | Inr toWallet \<Rightarrow>
                  let evs = [Fetch (EmailLookup fromEmail), Fetch (EmailLookup toEmail)]
                  in if \<not> is_address L fromWallet \<or> \<not> is_address L toWallet then
                       respond 400 [(''error'', JStr ''Invalid wallet address(es) found'')] evs
                     else if toLowerCase (str_of fromWallet) = toLowerCase (str_of toWallet) then
                       respond 400
                         [(''error'', JStr ''Source and destination wallets are the same'')] evs
                     else
                       payment L E key store (str_of fromWallet) (str_of toWallet) amountEth
                         (if js_truthy memo then memo
                          else JStr (''Payment from '' @ js_to_string L fromEmail @ '' to ''
                                     @ js_to_string L toEmail))
                         (fresh_id E ''email'') evs ''Payment submitted successfully''
                         [(''from_email'', fromEmail), (''to_email'', toEmail)])))"

text \<open>\<^verbatim>\<open>POST /payment/wallet-to-wallet\<close>\<close>

definition wallet_to_wallet ::
  "lib \<Rightarrow> env \<Rightarrow> byte list \<Rightarrow> wallet_store \<Rightarrow> jsval \<Rightarrow> jsval \<Rightarrow> jsval \<Rightarrow> jsval \<Rightarrow> outcome" where
  "wallet_to_wallet L E key store fromWallet toWallet amountEth memo =
     (if \<not> js_truthy fromWallet \<or> \<not> js_truthy toWallet \<or> \<not> js_truthy amountEth then
        respond 400 [(''error'', JStr ''fromWallet, toWallet, and amountEth are required'')] []
      else if \<not> is_address L fromWallet \<or> \<not> is_address L toWallet then
        respond 400 [(''error'', JStr ''Invalid wallet address format'')] []
      else if toLowerCase (str_of fromWallet) = toLowerCase (str_of toWallet) then
        respond 400 [(''error'', JStr ''Cannot send payment to same wallet'')] []
      else if js_le (parseFloat L amountEth) (Dbl 0) then
        respond 400 [(''error'', JStr ''Amount must be greater than 0'')] []
      else if js_gt (parseFloat L amountEth) (Dbl 1000) then
        respond 400 [(''error'', JStr ''Payment amount cannot exceed 1000 ETH'')] []
      else
        payment L E key store (str_of fromWallet) (str_of toWallet) amountEth
          (if js_truthy memo then memo else JStr ''Direct wallet transfer'')
          (fresh_id E ''wallet'') [] ''Wallet transfer submitted successfully''
          [(''from_wallet'', fromWallet), (''to_wallet'', toWallet)])"

section \<open>Bootstrap funding\<close>

text \<open>\<^verbatim>\<open>funded-wallets.json\<close>: one record for each address that was granted funds.\<close>

record funded_record =
  funded :: bool
  timestamp :: nat

type_synonym funded_store = "string \<rightharpoonup> funded_record"

definition markWalletFunded :: "funded_store \<Rightarrow> string \<Rightarrow> nat \<Rightarrow> funded_store" where
  "markWalletFunded fundedWallets walletAddress now =
     fundedWallets(walletAddress \<mapsto> \<lparr>funded = True, timestamp = now\<rparr>)"

definition isWalletEligibleForBonus :: "funded_store \<Rightarrow> string \<Rightarrow> bool" where
  "isWalletEligibleForBonus fundedWallets walletAddress =
     (case fundedWallets walletAddress of
        None \<Rightarrow> True
      | Some r \<Rightarrow> \<not> funded r)"

text \<open>\<^verbatim>\<open>GET /wallet/bonus-eligible/:walletAddress\<close>\<close>

definition bonus_eligible :: "lib \<Rightarrow> funded_store \<Rightarrow> string \<Rightarrow> http_reply" where
  "bonus_eligible L fundedWallets walletAddress =
     (if \<not> isAddress L walletAddress
      then \<lparr>code = 400, body = JObj [(''error'', JStr ''Invalid wallet address'')]\<rparr>
      else \<lparr>code = 200,
            body = JObj [(''success'', JBool True),
                         (''eligible'', JBool (isWalletEligibleForBonus fundedWallets walletAddress))]\<rparr>)"

record faucet_outcome = outcome +
  funded_after :: funded_store

definition faucet_reply :: "funded_store \<Rightarrow> outcome \<Rightarrow> faucet_outcome" where
  "faucet_reply fundedWallets out =
     \<lparr>reply = reply out, events = events out, watch = watch out, funded_after = fundedWallets\<rparr>"

definition faucet_payload :: "env \<Rightarrow> string \<Rightarrow> jsval \<Rightarrow> jsval \<Rightarrow> (string \<times> jsval) list" where
  "faucet_payload E transactionId toWallet amountEth =
     [(''transaction_id'', JStr transactionId),
      (''wallet_address'', toWallet),
      (''from_address'', JStr (deployer E)),
      (''to_address'', toWallet),
      (''amount'', amountEth),
      (''currency_symbol'', JStr ''ETH''),
      (''transaction_type'', JStr ''faucet''),
      (''direction'', JStr ''inbound''),
      (''status'', JStr ''pending''),
      (''memo'', JStr ''Faucet funding''),
      (''network_mode'', network_mode E)]"

text \<open>
  \<^verbatim>\<open>POST /payment/faucet\<close>. The funded-wallets file is read by the eligibility check
  and written by \<open>markWalletFunded\<close> after the contract call has returned.
\<close>

definition faucet :: "lib \<Rightarrow> env \<Rightarrow> funded_store \<Rightarrow> jsval \<Rightarrow> jsval \<Rightarrow> faucet_outcome" where
  "faucet L E fundedWallets toWallet amountEth =
     (if \<not> js_truthy toWallet \<or> \<not> js_truthy amountEth then
        faucet_reply fundedWallets
          (respond 400 [(''error'', JStr ''toWallet and amountEth are required'')] [])
      else if \<not> is_address L toWallet then
        faucet_reply fundedWallets
          (respond 400 [(''error'', JStr ''Invalid wallet address format'')] [])
      else if js_le (parseFloat L amountEth) (Dbl 0) then
        faucet_reply fundedWallets
          (respond 400 [(''error'', JStr ''Amount must be greater than 0'')] [])
      else if js_gt (parseFloat L amountEth) (Dbl 100) then
        faucet_reply fundedWallets
          (respond 400 [(''error'', JStr ''Faucet amount cannot exceed 100 ETH'')] [])
      else if \<not> isWalletEligibleForBonus fundedWallets (str_of toWallet) then
        faucet_reply fundedWallets
          (respond 429 [(''error'', JStr ''Wallet has already received faucet funding''),
                        (''eligible'', JBool False)] [])
      else
        let transactionId = fresh_id E ''faucet'';
            createPayload = faucet_payload E transactionId toWallet amountEth;
            createResult = createTransactionPHP L E createPayload;
            evs1 = [create_event createPayload]
        in if js_nullish createResult then
             faucet_reply fundedWallets (thrown (type_error ''success'') evs1)
           else if \<not> js_truthy (js_prop createResult ''success'') then
             faucet_reply fundedWallets
               (thrown (''Failed to create transaction record: ''
                        @ js_to_string L (js_prop createResult ''error'')) evs1)
           else
             (case toWei L amountEth of
                Inl m \<Rightarrow> faucet_reply fundedWallets (thrown m evs1)
              | Inr amountWei \<Rightarrow>
                  (case sendPaymentToWallet E (str_of toWallet) amountWei of
                     Inl m \<Rightarrow>
                       faucet_reply fundedWallets
                         (thrown m (evs1 @ [ContractSendPayment (str_of toWallet) amountWei]))
                   | Inr tx \<Rightarrow>
                       let extra = [(''transaction_id'', JStr transactionId),
                                    (''transaction_db_id'', js_prop createResult ''transaction_db_id'')]
                       in \<lparr>reply =
                              \<lparr>code = 200,
                               body = JObj [(''success'', JBool True),
                                            (''transaction_id'', JStr transactionId),
                                            (''txHash'', JStr (transactionHash tx)),
                                            (''status'', JStr ''submitted''),
                                            (''message'', JStr ''Faucet funding submitted successfully''),
                                            (''amount'', amountEth)]\<rparr>,
                            events = evs1 @ [ContractSendPayment (str_of toWallet) amountWei,
                                             Fetch (PostWebhook
                                               (update_body (transactionHash tx) ''submitted'' extra))],
                            watch = Some \<lparr>w_txHash = transactionHash tx,
                                          w_records = [\<lparr>r_type = ''faucet'', r_result = createResult,
                                                        r_payload = createPayload\<rparr>]\<rparr>,
                            funded_after =
                              markWalletFunded fundedWallets (str_of toWallet) (date_now E)\<rparr>)))"

section \<open>Wallet creation\<close>






text \<open>
  \<^verbatim>\<open>POST /wallet/create\<close>. \<open>seed\<close> are the 32 random bytes of the new key and \<open>iv\<close> the
  16 random bytes \<open>encrypt\<close> draws.
\<close>

definition ustr :: "string \<Rightarrow> ustring" where
  "ustr s = map (\<lambda>c. of_nat (of_char c)) s"








section \<open>The settlement watcher\<close>

text \<open>
  \<open>waitForReceipt\<close> polls until a receipt appears or the time is up. \<open>start\<close> and \<open>now\<close>
  are readings of \<^verbatim>\<open>Date.now()\<close>; the chain's answer to a poll depends on when it is
  asked; a sleep lasts \<open>pollInterval\<close> milliseconds, and at least one. An error of the
  call to the chain is thrown on, as the time-out is (\<open>Inl\<close> its message).
\<close>

function waitForReceipt :: "env \<Rightarrow> string \<Rightarrow> nat \<Rightarrow> nat \<Rightarrow> nat \<Rightarrow> nat \<Rightarrow> string + receipt" where
  "waitForReceipt E txHash timeoutMs pollInterval start now =
     (if now - start < timeoutMs then
        (case getTransactionReceipt E txHash now of
           Inl m \<Rightarrow> Inl m
         | Inr (Some receipt) \<Rightarrow> Inr receipt
         | Inr None \<Rightarrow> waitForReceipt E txHash timeoutMs pollInterval start (now + max 1 pollInterval))
      else Inl ''Timeout waiting for transaction receipt'')"
  by pat_completeness auto
termination
  by (relation "measure (\<lambda>(E, txHash, timeoutMs, pollInterval, start, now). start + timeoutMs - now)")
     auto

declare waitForReceipt.simps [simp del]

text \<open>
  The watcher the payment handlers leave running: it waits for the receipt and writes
  the final status to every record of the payment. The result is the list of its calls
  to the backend.
\<close>

definition settlement_watcher :: "lib \<Rightarrow> env \<Rightarrow> watch_task \<Rightarrow> nat \<Rightarrow> event list" where
  "settlement_watcher L E task start =
     (case waitForReceipt E (w_txHash task) 120000 2000 start start of
        Inl m \<Rightarrow>
          snd (updateDualTransactionStatus L E (w_records task) (w_txHash task) ''failed''
                 [(''error_message'', JStr m)])
      | Inr receipt \<Rightarrow>
          let status = (if rc_status receipt then ''completed'' else ''failed'')
          in (case getBlock E (blockNumber receipt) of
                Inl m \<Rightarrow>
                  snd (updateDualTransactionStatus L E (w_records task) (w_txHash task) ''failed''
                         [(''error_message'', JStr m)])
              | Inr block \<Rightarrow>
                  snd (updateDualTransactionStatus L E (w_records task) (w_txHash task) status
                         [(''block_number'', JNum (Dbl (of_nat (blockNumber receipt)))),
                          (''block_hash'', JStr (blockHash receipt)),
                          (''transaction_index'', JNum (Dbl (of_nat (transactionIndex receipt)))),
                          (''gas_used'', JNum (Dbl (of_nat (gasUsed receipt)))),
                          (''blockchain_timestamp'',
                           (case block of None \<Rightarrow> JNull | Some t \<Rightarrow> JNum (Dbl (of_nat t)))),
                          (''error_message'',
                           (if \<not> rc_status receipt then JStr ''Transaction failed on blockchain''
                            else JNull))])))"

section \<open>Concurrent submissions\<close>

text \<open>
  Modelled from the spec: the chain node is outside the repository. It orders the
  transactions of a sender by sequence number: a broadcast whose nonce is the sender's
  transaction count is accepted and the count goes up by one; a broadcast with any other
  nonce is rejected. \<open>broadcasts\<close> is the log of what was broadcast: sender, nonce,
  accepted or not.
\<close>

record chain =
  tx_count :: "string \<Rightarrow> nat"
  broadcasts :: "(string \<times> nat \<times> bool) list"

text \<open>
  A call of \<open>sendTransactionWithPrivateKey\<close> in flight. The process is single-threaded:
  a call runs until its next \<^verbatim>\<open>await\<close>, where another request may run. The stage is
  the \<^verbatim>\<open>await\<close> the call stands at.
\<close>

datatype stage = AtGetTransactionCount | AtGetGasPrice | AtSignTransaction | AtSendSigned
  | Returned | Rejected

record submission =
  sub_from :: string
  sub_stage :: stage
  sub_nonce :: nat

definition new_submission :: "string \<Rightarrow> submission" where
  "new_submission a = \<lparr>sub_from = a, sub_stage = AtGetTransactionCount, sub_nonce = 0\<rparr>"

definition sub_step :: "chain \<Rightarrow> submission \<Rightarrow> chain \<times> submission" where
  "sub_step c s =
     (case sub_stage s of
        AtGetTransactionCount \<Rightarrow>
          (c, s\<lparr>sub_nonce := tx_count c (sub_from s), sub_stage := AtGetGasPrice\<rparr>)
      | AtGetGasPrice \<Rightarrow> (c, s\<lparr>sub_stage := AtSignTransaction\<rparr>)
      | AtSignTransaction \<Rightarrow> (c, s\<lparr>sub_stage := AtSendSigned\<rparr>)
      | AtSendSigned \<Rightarrow>
          if sub_nonce s = tx_count c (sub_from s)
          then (c\<lparr>tx_count := (tx_count c)(sub_from s := Suc (sub_nonce s)),
                  broadcasts := broadcasts c @ [(sub_from s, sub_nonce s, True)]\<rparr>,
                s\<lparr>sub_stage := Returned\<rparr>)
          else (c\<lparr>broadcasts := broadcasts c @ [(sub_from s, sub_nonce s, False)]\<rparr>,
                s\<lparr>sub_stage := Rejected\<rparr>)
      | Returned \<Rightarrow> (c, s)
      | Rejected \<Rightarrow> (c, s))"

text \<open>A schedule names, step by step, the request that runs next.\<close>

fun run_schedule :: "nat list \<Rightarrow> chain \<times> submission list \<Rightarrow> chain \<times> submission list" where
  "run_schedule [] st = st"
| "run_schedule (i # sched) (c, ps) =
     (if i < length ps
      then run_schedule sched (fst (sub_step c (ps ! i)), ps[i := snd (sub_step c (ps ! i))])
      else run_schedule sched (c, ps))"

section \<open>Requests that pass the checks\<close>

text \<open>The conditions under which the handlers go past their input validation.\<close>

definition email_request_valid :: "lib \<Rightarrow> jsval \<Rightarrow> jsval \<Rightarrow> jsval \<Rightarrow> bool" where
  "email_request_valid L fromEmail toEmail amountEth =
     (js_truthy fromEmail \<and> js_truthy toEmail \<and> js_truthy amountEth
      \<and> \<not> js_strict_eq fromEmail toEmail
      \<and> \<not> js_le (parseFloat L amountEth) (Dbl 0)
      \<and> \<not> js_gt (parseFloat L amountEth) (Dbl 1000))"

text \<open>Both emails resolve, to well-formed addresses that differ.\<close>

definition resolved :: "lib \<Rightarrow> env \<Rightarrow> jsval \<Rightarrow> jsval \<Rightarrow> string \<Rightarrow> string \<Rightarrow> bool" where
  "resolved L E fromEmail toEmail f t =
     (getWalletByEmail L E fromEmail = Inr (JStr f) \<and> getWalletByEmail L E toEmail = Inr (JStr t)
      \<and> isAddress L f \<and> isAddress L t \<and> toLowerCase f \<noteq> toLowerCase t)"

definition wallet_request_valid :: "lib \<Rightarrow> string \<Rightarrow> string \<Rightarrow> jsval \<Rightarrow> bool" where
  "wallet_request_valid L f t amountEth =
     (f \<noteq> [] \<and> t \<noteq> [] \<and> js_truthy amountEth \<and> isAddress L f \<and> isAddress L t
      \<and> toLowerCase f \<noteq> toLowerCase t
      \<and> \<not> js_le (parseFloat L amountEth) (Dbl 0)
      \<and> \<not> js_gt (parseFloat L amountEth) (Dbl 1000))"

text \<open>
  The raw transaction the submitter builds for a transfer, when the key is in the vault
  and the chain answers the two queries; \<open>None\<close> when one of these steps throws.
\<close>

definition raw_transaction ::
  "lib \<Rightarrow> env \<Rightarrow> byte list \<Rightarrow> wallet_store \<Rightarrow> string \<Rightarrow> string \<Rightarrow> nat \<Rightarrow> string option" where
  "raw_transaction L E key store f t w =
     (case getPrivateKeyForWallet L key store f of
        Inl e \<Rightarrow> None
      | Inr privateKey \<Rightarrow>
          (case getTransactionCount E f of
             Inl m \<Rightarrow> None
           | Inr nonce \<Rightarrow>
               (case getGasPrice E of
                  Inl m \<Rightarrow> None
                | Inr gasPrice \<Rightarrow>
                    (case signTransaction L
                            \<lparr>tx_nonce = nonce, tx_to = t, tx_value = w, tx_gasLimit = 200000,
                             tx_gasPrice = gasPrice\<rparr> privateKey of
                       Inl m \<Rightarrow> None
                     | Inr raw \<Rightarrow> Some raw))))"

text \<open>
  The raw transaction of a payment request: the amount converted to wei, then the
  transaction built and signed; \<open>None\<close> when the conversion or one of the submitter's
  steps before the broadcast throws.
\<close>

definition built_transaction ::
  "lib \<Rightarrow> env \<Rightarrow> byte list \<Rightarrow> wallet_store \<Rightarrow> string \<Rightarrow> string \<Rightarrow> jsval \<Rightarrow> string option" where
  "built_transaction L E key store f t amountEth =
     (case toWei L amountEth of
        Inl m \<Rightarrow> None
      | Inr w \<Rightarrow> raw_transaction L E key store f t w)"

text \<open>The backend accepted a record: its reply is not null and reports success.\<close>

definition created :: "lib \<Rightarrow> env \<Rightarrow> (string \<times> jsval) list \<Rightarrow> bool" where
  "created L E payload =
     (\<not> js_nullish (createTransactionPHP L E payload)
      \<and> js_truthy (js_prop (createTransactionPHP L E payload) ''success''))"

definition email_memo :: "lib \<Rightarrow> jsval \<Rightarrow> jsval \<Rightarrow> jsval \<Rightarrow> jsval" where
  "email_memo L fromEmail toEmail memo =
     (if js_truthy memo then memo
      else JStr (''Payment from '' @ js_to_string L fromEmail @ '' to '' @ js_to_string L toEmail))"

text \<open>
  At least one of the two pending records of a payment was created. The receiver's
  record is only asked for when the reply to the sender's was not \<^verbatim>\<open>null\<close>.
\<close>

definition some_record_created ::
  "lib \<Rightarrow> env \<Rightarrow> string \<Rightarrow> string \<Rightarrow> string \<Rightarrow> jsval \<Rightarrow> jsval \<Rightarrow> bool" where
  "some_record_created L E transactionId f t amountEth memo =
     (created L E (dual_payload E transactionId (JStr f) (JStr t) amountEth memo ''sender'' True)
      \<or> (\<not> js_nullish (createTransactionPHP L E
               (dual_payload E transactionId (JStr f) (JStr t) amountEth memo ''sender'' True))
         \<and> created L E (dual_payload E transactionId (JStr f) (JStr t) amountEth memo ''receiver'' False)))"

section \<open>Well-formed strings\<close>

text \<open>A string is well formed when every surrogate code unit is part of a pair.\<close>

fun well_formed :: "ustring \<Rightarrow> bool" where
  "well_formed [] = True"
| "well_formed [u] = (\<not> is_high u \<and> \<not> is_low u)"
| "well_formed (u # v # r) =
     (if is_high u then is_low v \<and> well_formed r
      else \<not> is_low u \<and> well_formed (v # r))"

section \<open>Key resolution, as the specification words it\<close>

text \<open>
  The first stored record whose address equals the queried one, letter case aside, is
  decrypted; with no such record the lookup fails with \<open>NotFound\<close>.
\<close>

definition resolvePrivateKey_spec ::
  "lib \<Rightarrow> byte list \<Rightarrow> wallet_store \<Rightarrow> string \<Rightarrow> vault_error + ustring" where
  "resolvePrivateKey_spec L key store a =
     (case find (\<lambda>e. toLowerCase (address (snd e)) = toLowerCase a) store of
        None \<Rightarrow> Inl (NotFound a)
      | Some e \<Rightarrow> decrypt L key (encryptedKey (snd e)))"

section \<open>Faucet requests that pass the checks\<close>

definition faucet_request_valid :: "lib \<Rightarrow> jsval \<Rightarrow> jsval \<Rightarrow> bool" where
  "faucet_request_valid L toWallet amountEth =
     (js_truthy toWallet \<and> js_truthy amountEth \<and> is_address L toWallet
      \<and> \<not> js_le (parseFloat L amountEth) (Dbl 0)
      \<and> \<not> js_gt (parseFloat L amountEth) (Dbl 100))"

section \<open>The polls of the watcher\<close>

text \<open>The times at which \<open>waitForReceipt\<close> asks the chain, when no poll ends the wait.\<close>

function poll_times :: "nat \<Rightarrow> nat \<Rightarrow> nat \<Rightarrow> nat \<Rightarrow> nat list" where
  "poll_times timeoutMs pollInterval start now =
     (if now - start < timeoutMs
      then now # poll_times timeoutMs pollInterval start (now + max 1 pollInterval)
      else [])"
  by pat_completeness auto
termination
  by (relation "measure (\<lambda>(timeoutMs, pollInterval, start, now). start + timeoutMs - now)") auto

declare poll_times.simps [simp del]

definition timeout_update :: "string \<Rightarrow> dual_record \<Rightarrow> event" where
  "timeout_update txHash r =
     Fetch (PostWebhook (update_body txHash ''failed''
       (dual_update_extra r [(''error_message'', JStr ''Timeout waiting for transaction receipt'')])))"

definition reverted_update :: "string \<Rightarrow> receipt \<Rightarrow> nat option \<Rightarrow> dual_record \<Rightarrow> event" where
  "reverted_update txHash receipt block r =
     Fetch (PostWebhook (update_body txHash ''failed''
       (dual_update_extra r
          [(''block_number'', JNum (Dbl (of_nat (blockNumber receipt)))),
           (''block_hash'', JStr (blockHash receipt)),
           (''transaction_index'', JNum (Dbl (of_nat (transactionIndex receipt)))),
           (''gas_used'', JNum (Dbl (of_nat (gasUsed receipt)))),
           (''blockchain_timestamp'',
            (case block of None \<Rightarrow> JNull | Some t \<Rightarrow> JNum (Dbl (of_nat t)))),
           (''error_message'', JStr ''Transaction failed on blockchain'')])))"

definition update_of :: "event \<Rightarrow> jsval" where
  "update_of e = (case e of Fetch (PostWebhook b) \<Rightarrow> b | _ \<Rightarrow> JUndefined)"

section \<open>The fields of a JSON object\<close>


section \<open>The interleavings of two requests\<close>

text \<open>
  All the orders in which two requests can take their steps, the first \<open>m\<close> steps and
  the second \<open>n\<close>: each schedule names request 0 \<open>m\<close> times and request 1 \<open>n\<close> times.
\<close>

fun interleavings :: "nat \<Rightarrow> nat \<Rightarrow> nat list list" where
  "interleavings 0 0 = [[]]"
| "interleavings (Suc m) 0 = map ((#) 0) (interleavings m 0)"
| "interleavings 0 (Suc n) = map ((#) 1) (interleavings 0 n)"
| "interleavings (Suc m) (Suc n) =
     map ((#) 0) (interleavings m (Suc n)) @ map ((#) 1) (interleavings (Suc m) n)"

section \<open>A cipher that authenticates\<close>


section \<open>A test installation\<close>

text \<open>
  One concrete choice of the libraries and of the environment, on which the handlers
  can be run: two users with their wallets, a backend that accepts every record, a
  chain that mines every transaction. The cipher is a toy that stands for AES-GCM.
\<close>

definition addrA :: string where
  "addrA = ''0xaaaaaaaaaaaaaaaaaaaaaaaaaaaaaaaaaaaaaaaa''"

definition addrB :: string where
  "addrB = ''0xbbbbbbbbbbbbbbbbbbbbbbbbbbbbbbbbbbbbbbbb''"

definition to_double0 :: "rat \<Rightarrow> jsnum" where
  "to_double0 q = (if q = 1 / 10 then Dbl (3602879701896397 / 36028797018963968) else Dbl q)"

definition num_to_string0 :: "jsnum \<Rightarrow> string" where
  "num_to_string0 n =
     (case n of
        NaN \<Rightarrow> ''NaN''
      | NegInf \<Rightarrow> ''-Infinity''
      | PosInf \<Rightarrow> ''Infinity''
      | Dbl q \<Rightarrow> if q = 3602879701896397 / 36028797018963968 then ''0.1''
                 else string_of_nat (nat \<lfloor>q\<rfloor>))"

definition isAddress0 :: "string \<Rightarrow> bool" where
  "isAddress0 s =
     (length s = 42 \<and> take 2 s = ''0x''
      \<and> list_all (\<lambda>c. is_digit c \<or> (97 \<le> (of_char c :: nat) \<and> (of_char c :: nat) \<le> 102)) (drop 2 s))"

definition toWei0 :: "jsval \<Rightarrow> string + nat" where
  "toWei0 v =
     (case v of
        JStr s \<Rightarrow>
          (let ip = takeWhile is_digit s; r = dropWhile is_digit s
           in if s = [] then Inl ''invalid number value''
              else if r = [] then Inr (digits_val ip * 10 ^ 18)
              else if hd r = CHR ''.'' \<and> list_all is_digit (tl r) \<and> length (tl r) \<le> 18
                      \<and> (ip \<noteq> [] \<or> tl r \<noteq> [])
              then Inr (digits_val ip * 10 ^ 18 + digits_val (tl r) * 10 ^ (18 - length (tl r)))
              else Inl ''invalid number value'')
      | _ \<Rightarrow> Inl ''invalid number value'')"

definition json_parse0 :: "string \<Rightarrow> string + jsval" where
  "json_parse0 s =
     (if s = ''wallet-a''
      then Inr (JObj [(''success'', JBool True), (''user'', JObj [(''wallet_address'', JStr addrA)])])
      else if s = ''wallet-b''
      then Inr (JObj [(''success'', JBool True), (''user'', JObj [(''wallet_address'', JStr addrB)])])
      else if s = ''created''
      then Inr (JObj [(''success'', JBool True), (''transaction_db_id'', JNum (Dbl 7))])
      else if s = ''updated'' then Inr (JObj [(''success'', JBool True)])
      else if s = ''no-user'' then Inr (JObj [(''success'', JBool False)])
      else Inl ''Unexpected token'')"

definition toy_tag :: "byte list \<Rightarrow> byte list" where
  "toy_tag key = take 16 key"

definition lib0 :: lib where
  "lib0 =
     \<lparr>to_double = to_double0,
      num_to_string = num_to_string0,
      isAddress = isAddress0,
      toWei = toWei0,
      privateKeyToAddress = (\<lambda>k. ''0x'' @ take 40 (drop 2 k)),
      signTransaction = (\<lambda>tx k. Inr (''signed-'' @ string_of_nat (tx_nonce tx))),
      json_parse = json_parse0,
      gcm_encrypt = (\<lambda>key iv p. (map (\<lambda>b. b + 1) p, toy_tag key)),
      gcm_decrypt = (\<lambda>key iv c t. if t = toy_tag key then Some (map (\<lambda>b. b - 1) c) else None)\<rparr>"

definition receipt0 :: receipt where
  "receipt0 =
     \<lparr>transactionHash = ''0xfeed'', rc_status = True, blockNumber = 12, blockHash = ''0xb10c'',
      transactionIndex = 0, gasUsed = 21000\<rparr>"

definition fetch0 :: "backend_call \<Rightarrow> http_result" where
  "fetch0 call =
     (case call of
        EmailLookup e \<Rightarrow>
          if e = JStr ''alice@example.com'' then HttpResponse 200 ''OK'' ''wallet-a''
          else if e = JStr ''bob@example.com'' then HttpResponse 200 ''OK'' ''wallet-b''
          else HttpResponse 200 ''OK'' ''no-user''
      | PostWebhook b \<Rightarrow>
          if js_prop b ''action'' = JStr ''create_full'' then HttpResponse 200 ''OK'' ''created''
          else HttpResponse 200 ''OK'' ''updated''
      | PutWallet b \<Rightarrow> HttpResponse 200 ''OK'' ''updated'')"

definition env0 :: env where
  "env0 =
     \<lparr>fetch = fetch0,
      getBalance = (\<lambda>a. Inr (if a = addrA then 2 * 10 ^ 18 else 0)),
      getTransactionCount = (\<lambda>a. Inr 0),
      getGasPrice = Inr 20000000000,
      sendSignedTransaction = (\<lambda>raw. Inr receipt0),
      sendPaymentToWallet = (\<lambda>a v. Inr receipt0),
      getTransactionReceipt = (\<lambda>h t. Inr (Some receipt0)),
      getBlock = (\<lambda>n. Inr (Some 1700000000)),
      NETWORK_MODE = [],
      deployer = ''0xdddddddddddddddddddddddddddddddddddddddd'',
      date_now = 1700000000000,
      random_suffix = ''k3j9x2m1q''\<rparr>"

text \<open>A backend that answers every record creation and update with a 500.\<close>

definition fetch_down :: "backend_call \<Rightarrow> http_result" where
  "fetch_down call =
     (case call of
        PostWebhook b \<Rightarrow> HttpResponse 500 ''Internal Server Error'' []
      | _ \<Rightarrow> fetch0 call)"

text \<open>A backend that refuses the sender's record and accepts the receiver's.\<close>

definition fetch_half :: "backend_call \<Rightarrow> http_result" where
  "fetch_half call =
     (case call of
        PostWebhook b \<Rightarrow>
          if js_prop b ''transaction_type'' = JStr ''send''
          then HttpResponse 500 ''Internal Server Error'' []
          else fetch0 call
      | _ \<Rightarrow> fetch0 call)"

definition key0 :: "byte list" where
  "key0 = replicate 32 17"

definition store0 :: wallet_store where
  "store0 =
     [(''1'', \<lparr>encryptedKey = encrypt lib0 key0 (replicate 16 1) (ustr ''0x01''), address = addrA,
              createdAt = 1690000000000, userName = JStr ''Alice''\<rparr>)]"

text \<open>The same chain, where every account holds 0.1 ETH.\<close>

definition env_poor :: env where
  "env_poor = env0\<lparr>getBalance := (\<lambda>a. Inr (10 ^ 17))\<rparr>"

definition env_down :: env where
  "env_down = env0\<lparr>fetch := fetch_down\<rparr>"

definition env_half :: env where
  "env_half = env0\<lparr>fetch := fetch_half\<rparr>"

text \<open>A store of three wallets; the third has the address of the second in upper case.\<close>

definition addrC :: string where
  "addrC = ''0xcccccccccccccccccccccccccccccccccccccccc''"

definition store1 :: wallet_store where
  "store1 =
     [(''2'', \<lparr>encryptedKey = encrypt lib0 key0 (replicate 16 2) (ustr ''0x02''), address = addrB,
              createdAt = 1690000000001, userName = JStr ''Bob''\<rparr>),
      (''1'', \<lparr>encryptedKey = encrypt lib0 key0 (replicate 16 1) (ustr ''0x01''), address = addrA,
              createdAt = 1690000000000, userName = JStr ''Alice''\<rparr>),
      (''3'', \<lparr>encryptedKey = encrypt lib0 key0 (replicate 16 3) (ustr ''0x03''),
              address = ''0xAAAAAAAAAAAAAAAAAAAAAAAAAAAAAAAAAAAAAAAA'',
              createdAt = 1690000000002, userName = JStr ''Carol''\<rparr>)]"

text \<open>A chain that never has the receipt, and one whose receipt reports a failure.\<close>

definition env_silent :: env where
  "env_silent = env0\<lparr>getTransactionReceipt := (\<lambda>h t. Inr None)\<rparr>"

definition env_reverted :: env where
  "env_reverted = env0\<lparr>getTransactionReceipt := (\<lambda>h t. Inr (Some (receipt0\<lparr>rc_status := False\<rparr>)))\<rparr>"

definition task0 :: watch_task where
  "task0 =
     \<lparr>w_txHash = ''0xfeed'',
      w_records =
        [\<lparr>r_type = ''sender'',
          r_result = JObj [(''success'', JBool True), (''transaction_db_id'', JNum (Dbl 7))],
          r_payload = dual_payload env0 ''email_1'' (JStr addrA) (JStr addrB) (JStr ''1.0'') JNull
                        ''sender'' True\<rparr>]\<rparr>"

text \<open>The random bytes of one wallet creation.\<close>

definition seed0 :: "byte list" where
  "seed0 = replicate 32 171"

definition iv0 :: "byte list" where
  "iv0 = replicate 16 1"

text \<open>
  The doubles next to 1 are \<^verbatim>\<open>1 - 2^-53\<close> and \<^verbatim>\<open>1 + 2^-52\<close>: every rational from
  \<^verbatim>\<open>1 - 2^-54\<close> to \<^verbatim>\<open>1 + 2^-53\<close> is rounded to 1, the ties going to the even
  mantissa of 1. The same libraries, with this rounding.
\<close>

definition to_double1 :: "rat \<Rightarrow> jsnum" where
  "to_double1 q =
     (if 1 - 1 / 2 ^ 54 \<le> q \<and> q \<le> 1 + 1 / 2 ^ 53 then Dbl 1 else to_double0 q)"

definition lib1 :: lib where
  "lib1 = lib0\<lparr>to_double := to_double1\<rparr>"

text \<open>
  A chain where the sender holds one wei less than 1 ETH, and which refuses a transfer
  the sender cannot pay.
\<close>

definition env_short :: env where
  "env_short =
     env0\<lparr>getBalance := (\<lambda>a. Inr 999999999999999999),
          sendSignedTransaction := (\<lambda>raw. Inl ''insufficient funds for gas * price + value'')\<rparr>"


section \<open>Facts about the test installation\<close>

lemmas fixture_defs =
  lib0_def env0_def env_poor_def env_down_def env_half_def fetch0_def fetch_down_def fetch_half_def
  json_parse0_def toWei0_def isAddress0_def to_double0_def num_to_string0_def addrA_def addrB_def
  key0_def store0_def receipt0_def toy_tag_def addrC_def store1_def env_silent_def env_reverted_def
  task0_def seed0_def iv0_def

lemmas run_defs =
  email_to_email_def wallet_to_wallet_def payment_def getWalletByEmail_def
  createDualTransactionRecords_def createTransactionPHP_def parse_float_string_def
  unsigned_literal_def scale10_def exponent_part_def digits_val_def is_space_def is_digit_def
  js_gt_def js_nullish_def is_address_def toLowerCase_def lower_char_def respond_def thrown_def
  spread_def create_event_def dual_payload_def network_mode_def response_ok_def failure_def Let_def

lemma alice_bob_valid:
  "email_request_valid lib0 (JStr ''alice@example.com'') (JStr ''bob@example.com'') (JStr ''1.0'')"
  by (simp add: email_request_valid_def run_defs fixture_defs)

lemma alice_bob_resolved:
  "resolved lib0 env0 (JStr ''alice@example.com'') (JStr ''bob@example.com'') addrA addrB"
  by (simp add: resolved_def run_defs fixture_defs)

lemma alice_bob_resolved_poor:
  "resolved lib0 env_poor (JStr ''alice@example.com'') (JStr ''bob@example.com'') addrA addrB"
  by (simp add: resolved_def run_defs fixture_defs)

lemma alice_bob_resolved_half:
  "resolved lib0 env_half (JStr ''alice@example.com'') (JStr ''bob@example.com'') addrA addrB"
  by (simp add: resolved_def run_defs fixture_defs)

lemma alice_bob_resolved_down:
  "resolved lib0 env_down (JStr ''alice@example.com'') (JStr ''bob@example.com'') addrA addrB"
  by (simp add: resolved_def run_defs fixture_defs)

lemma addrA_addrB_valid: "wallet_request_valid lib0 addrA addrB (JStr ''1.0'')"
  by (simp add: wallet_request_valid_def run_defs fixture_defs)

lemma one_tenth_less_than_one:
  "js_lt (to_double lib0 (of_nat (10 ^ 17) / 10 ^ 18)) (parseFloat lib0 (JStr ''1.0''))"
  by (simp add: run_defs fixture_defs)

lemma two_not_less_than_one:
  "\<not> js_lt (to_double lib0 (of_nat (2 * 10 ^ 18) / 10 ^ 18)) (parseFloat lib0 (JStr ''1.0''))"
  by (simp add: run_defs fixture_defs)

section \<open>The encodings of the vault\<close>

lemma hex_val_hex_char: "n < 16 \<Longrightarrow> hex_val (hex_char n) = Some n"
  by (auto simp add: hex_val_def hex_char_def Let_def)

lemma unat_byte: "unat (b :: byte) < 256"
  using unsigned_less [of b, where 'a = nat] by simp

lemma hex_decode_encode: "hex_decode (hex_encode bs) = bs"
proof (induction bs)
  case Nil
  show ?case by simp
next
  case (Cons b bs)
  have "unat b div 16 < 16" using unat_byte [of b] by simp
  moreover have "unat b mod 16 < 16" by simp
  ultimately show ?case
    using Cons by (simp add: hex_val_hex_char)
qed

lemma un8: "n < 256 \<Longrightarrow> unat (of_nat n :: 8 word) = n"
  by (simp add: unat_of_nat)

lemma decode_cp1:
  assumes "cp < 128"
  shows "utf8_decode (utf8_of_cp cp @ bs) = units_of_cp cp @ utf8_decode bs"
  using assms by (simp add: utf8_of_cp_def units_of_cp_def un8)

lemma decode_cp2:
  assumes "128 \<le> cp" "cp < 2048"
  shows "utf8_decode (utf8_of_cp cp @ bs) = units_of_cp cp @ utf8_decode bs"
proof -
  have b: "unat (of_nat (192 + cp div 64) :: 8 word) = 192 + cp div 64"
    using assms by (intro un8) arith
  have c: "unat (of_nat (128 + cp mod 64) :: 8 word) = 128 + cp mod 64"
    by (intro un8) arith
  have r: "194 \<le> 192 + cp div 64" "192 + cp div 64 < 224" using assms by arith+
  have v: "(192 + cp div 64 - 192) * 64 + (128 + cp mod 64 - 128) = cp" by simp
  show ?thesis
    using assms r by (simp add: utf8_of_cp_def b c is_cont_def v del: of_nat_add of_nat_numeral)
qed




lemma split3:
  fixes cp :: nat
  shows "cp = 4096 * (cp div 4096) + 64 * ((cp div 64) mod 64) + cp mod 64"
proof -
  have "cp div 4096 = (cp div 64) div 64" by (simp add: div_mult2_eq)
  moreover have "cp div 64 = 64 * ((cp div 64) div 64) + (cp div 64) mod 64" by simp
  moreover have "cp = 64 * (cp div 64) + cp mod 64" by simp
  ultimately show ?thesis by linarith
qed

lemma split4:
  fixes cp :: nat
  shows "cp = 262144 * (cp div 262144) + 4096 * ((cp div 4096) mod 64)
              + 64 * ((cp div 64) mod 64) + cp mod 64"
proof -
  have "cp div 262144 = (cp div 4096) div 64" by (simp add: div_mult2_eq)
  moreover have "cp div 4096 = 64 * ((cp div 4096) div 64) + (cp div 4096) mod 64" by simp
  moreover have "cp = 4096 * (cp div 4096) + 64 * ((cp div 64) mod 64) + cp mod 64"
    by (rule split3)
  ultimately show ?thesis by linarith
qed

lemma decode_cp3:
  assumes "2048 \<le> cp" "cp < 65536" "\<not> (55296 \<le> cp \<and> cp < 57344)"
  shows "utf8_decode (utf8_of_cp cp @ bs) = units_of_cp cp @ utf8_decode bs"
proof -
  define h where "h = cp div 4096"
  define m where "m = (cp div 64) mod 64"
  define r where "r = cp mod 64"
  have eq: "cp = 4096 * h + 64 * m + r" unfolding h_def m_def r_def by (rule split3)
  have lt: "m < 64" "r < 64" by (simp_all add: m_def r_def)
  have h: "h < 16" using eq assms by linarith
  have b: "unat (of_nat (224 + h) :: 8 word) = 224 + h" using h by (intro un8) linarith
  have c: "unat (of_nat (128 + m) :: 8 word) = 128 + m" using lt by (intro un8) linarith
  have d: "unat (of_nat (128 + r) :: 8 word) = 128 + r" using lt by (intro un8) linarith
  have s1: "h = 0 \<Longrightarrow> 32 \<le> m" using eq assms lt by linarith
  have s2: "h = 13 \<Longrightarrow> m < 32" using eq assms lt by linarith
  have s: "second_ok (of_nat (224 + h)) (of_nat (128 + m))"
    unfolding second_ok_def is_cont_def b c using s1 s2 lt h by auto
  have v: "h * 4096 + m * 64 + r = cp" using eq by simp
  have "utf8_of_cp cp = [of_nat (224 + h), of_nat (128 + m), of_nat (128 + r)]"
    using assms by (simp add: utf8_of_cp_def h_def m_def r_def del: of_nat_add of_nat_numeral)
  then show ?thesis
    using s h lt
    by (simp add: b c d is_cont_def v del: of_nat_add of_nat_numeral)
qed

lemma decode_cp4:
  assumes "65536 \<le> cp" "cp < 1114112"
  shows "utf8_decode (utf8_of_cp cp @ bs) = units_of_cp cp @ utf8_decode bs"
proof -
  define g where "g = cp div 262144"
  define h where "h = (cp div 4096) mod 64"
  define m where "m = (cp div 64) mod 64"
  define r where "r = cp mod 64"
  have eq: "cp = 262144 * g + 4096 * h + 64 * m + r"
    unfolding g_def h_def m_def r_def by (rule split4)
  have lt: "h < 64" "m < 64" "r < 64" by (simp_all add: h_def m_def r_def)
  have g: "g < 5" using eq assms by linarith
  have a: "unat (of_nat (240 + g) :: 8 word) = 240 + g" using g by (intro un8) linarith
  have b: "unat (of_nat (128 + h) :: 8 word) = 128 + h" using lt by (intro un8) linarith
  have c: "unat (of_nat (128 + m) :: 8 word) = 128 + m" using lt by (intro un8) linarith
  have d: "unat (of_nat (128 + r) :: 8 word) = 128 + r" using lt by (intro un8) linarith
  have s1: "g = 0 \<Longrightarrow> 16 \<le> h" using eq assms lt by linarith
  have s2: "g = 4 \<Longrightarrow> h < 16" using eq assms lt by linarith
  have s: "second_ok (of_nat (240 + g)) (of_nat (128 + h))"
    unfolding second_ok_def is_cont_def a b using s1 s2 lt g by auto
  have v: "g * 262144 + h * 4096 + m * 64 + r = cp" using eq by simp
  have "utf8_of_cp cp = [of_nat (240 + g), of_nat (128 + h), of_nat (128 + m), of_nat (128 + r)]"
    using assms by (simp add: utf8_of_cp_def g_def h_def m_def r_def del: of_nat_add of_nat_numeral)
  then show ?thesis
    using s g lt
    by (simp add: a b c d is_cont_def v del: of_nat_add of_nat_numeral)
qed

lemma decode_cp:
  assumes "cp < 1114112" "\<not> (55296 \<le> cp \<and> cp < 57344)"
  shows "utf8_decode (utf8_of_cp cp @ bs) = units_of_cp cp @ utf8_decode bs"
proof -
  consider "cp < 128" | "128 \<le> cp \<and> cp < 2048" | "2048 \<le> cp \<and> cp < 65536" | "65536 \<le> cp"
    by linarith
  then show ?thesis
    using assms by cases (simp_all add: decode_cp1 decode_cp2 decode_cp3 decode_cp4)
qed


lemma unat_u16: "unat (u :: 16 word) < 65536"
  using unsigned_less [of u, where 'a = nat] by simp

lemma units_of_bmp: "units_of_cp (unat (u :: 16 word)) = [u]"
  using unat_u16 [of u] by (simp add: units_of_cp_def)

lemma units_of_pair:
  assumes "is_high u" "is_low v"
  shows "units_of_cp (65536 + (unat u - 55296) * 1024 + (unat v - 56320)) = [u, v]"
proof -
  define a where "a = unat u - 55296"
  define b where "b = unat v - 56320"
  have a: "unat u = 55296 + a" "a < 1024" using assms unfolding a_def is_high_def by arith+
  have b: "unat v = 56320 + b" "b < 1024" using assms unfolding b_def is_low_def by arith+
  have d: "(a * 1024 + b) div 1024 = a" using b by simp
  have m: "(a * 1024 + b) mod 1024 = b" using b by simp
  have "units_of_cp (65536 + a * 1024 + b) = [of_nat (unat u), of_nat (unat v)]"
    by (simp add: units_of_cp_def d m a b del: of_nat_add of_nat_numeral)
  then show ?thesis by (simp add: a_def b_def)
qed

lemma pair_cp_range:
  assumes "is_high u" "is_low v"
  shows "65536 + (unat u - 55296) * 1024 + (unat v - 56320) < 1114112"
    and "\<not> (55296 \<le> 65536 + (unat u - 55296) * 1024 + (unat v - 56320)
           \<and> 65536 + (unat u - 55296) * 1024 + (unat v - 56320) < 57344)"
  using assms unfolding is_high_def is_low_def by arith+

lemma utf8_decode_encode_append:
  "well_formed t \<Longrightarrow> utf8_decode (utf8_encode t @ bs) = t @ utf8_decode bs"
proof (induction t arbitrary: bs rule: utf8_encode.induct)
  case 1
  show ?case by simp
next
  case (2 u)
  then have "\<not> (55296 \<le> unat u \<and> unat u < 57344)"
    by (auto simp add: is_high_def is_low_def)
  moreover have "unat u < 1114112" using unat_u16 [of u] by simp
  ultimately show ?case
    using 2 decode_cp [of "unat u" bs] by (simp add: units_of_bmp)
next
  case (3 u v r)
  show ?case
  proof (cases "is_high u")
    case True
    with 3 have low: "is_low v" and wf: "well_formed r" by simp_all
    have "utf8_decode (utf8_encode r @ bs) = r @ utf8_decode bs"
      by (rule "3.IH"(1) [OF True low wf])
    then show ?thesis
      using True low pair_cp_range [OF True low]
        decode_cp [of "65536 + (unat u - 55296) * 1024 + (unat v - 56320)" "utf8_encode r @ bs"]
      by (simp add: units_of_pair)
  next
    case False
    with 3 have nl: "\<not> is_low u" and wf: "well_formed (v # r)" by simp_all
    have ih: "utf8_decode (utf8_encode (v # r) @ bs) = (v # r) @ utf8_decode bs"
      by (rule "3.IH"(4) [OF False nl wf])
    have "\<not> (55296 \<le> unat u \<and> unat u < 57344)"
      using False nl by (auto simp add: is_high_def is_low_def)
    moreover have "unat u < 1114112" using unat_u16 [of u] by simp
    ultimately show ?thesis
      using False nl ih decode_cp [of "unat u" "utf8_encode (v # r) @ bs"]
      by (simp add: units_of_bmp)
  qed
qed

lemma utf8_decode_encode: "well_formed t \<Longrightarrow> utf8_decode (utf8_encode t) = t"
  using utf8_decode_encode_append [of t "[]"] by simp

text \<open>
  What \<open>encrypt\<close> returns, \<open>decrypt\<close> reads back, when the cipher decrypts what it
  encrypted and the text is well formed.
\<close>

lemma decrypt_encrypt:
  assumes "gcm_decrypt L key iv (fst (gcm_encrypt L key iv (utf8_encode t)))
             (snd (gcm_encrypt L key iv (utf8_encode t))) = Some (utf8_encode t)"
    and "well_formed t"
  shows "decrypt L key (encrypt L key iv t) = Inr t"
proof (cases "gcm_encrypt L key iv (utf8_encode t)")
  case (Pair ct authTag)
  then show ?thesis
    using assms by (simp add: decrypt_def encrypt_def hex_decode_encode utf8_decode_encode)
qed

lemma of_char_less: "(of_char c :: nat) < 256"
proof -
  have "(of_char c :: nat) mod 256 < 256" by (rule mod_less_divisor) simp
  then show ?thesis by simp
qed

lemma unat_of_char: "unat (of_nat (of_char c) :: 16 word) = of_char c"
proof -
  have "(of_char c :: nat) < 65536" using of_char_less [of c] by linarith
  then show ?thesis by (simp add: unat_of_nat)
qed

lemma ustr_not_surrogate:
  "\<not> is_high (of_nat (of_char c)) \<and> \<not> is_low (of_nat (of_char c))"
proof -
  have "(of_char c :: nat) < 55296" using of_char_less [of c] by linarith
  then show ?thesis by (simp add: is_high_def is_low_def unat_of_char)
qed

lemma well_formed_ustr: "well_formed (ustr s)"
proof (induction s rule: induct_list012)
  case 1
  show ?case by (simp add: ustr_def)
next
  case (2 c)
  show ?case by (simp add: ustr_def ustr_not_surrogate)
next
  case (3 c d s)
  then show ?case by (simp add: ustr_def ustr_not_surrogate)
qed

lemma lib0_cipher:
  "gcm_decrypt lib0 key iv (fst (gcm_encrypt lib0 key iv p)) (snd (gcm_encrypt lib0 key iv p)) = Some p"
  by (simp add: lib0_def comp_def)

lemma store0_key: "getPrivateKeyForWallet lib0 key0 store0 addrA = Inr (ustr ''0x01'')"
  by (simp add: store0_def decrypt_encrypt lib0_cipher well_formed_ustr)

lemma char_eq_char_of: "(c = char_of (n :: nat)) = (take_bit 8 n = of_char c)"
  using char_of_eq_iff [of n c] by auto

lemmas char_of_simps = char_of_eq_iff char_eq_char_of

lemma upper_A_lower: "toLowerCase ''0xAAAAAAAAAAAAAAAAAAAAAAAAAAAAAAAAAAAAAAAA'' = addrA"
  by (simp add: toLowerCase_def lower_char_def addrA_def char_of_simps)

lemma lower_fixed:
  "toLowerCase addrA = addrA" "toLowerCase addrB = addrB" "toLowerCase addrC = addrC"
  by (simp_all add: toLowerCase_def lower_char_def addrA_def addrB_def addrC_def)

lemma length_hex_decode:
  "list_all (\<lambda>c. hex_val c \<noteq> None) s \<Longrightarrow> length (hex_decode s) = length s div 2"
  by (induction s rule: hex_decode.induct) auto

text \<open>The key the process starts with has 32 bytes.\<close>

lemma ENCRYPTION_KEY_length: "ENCRYPTION_KEY w = Some key \<Longrightarrow> length key = 32"
  by (auto simp add: ENCRYPTION_KEY_def length_hex_decode split: if_splits)

section \<open>Validation\<close>

text \<open>An amount that parses to a number that is not positive is refused before any call.\<close>

lemma email_rejects_non_positive:
  assumes "js_le (parseFloat L amountEth) (Dbl 0)"
  shows "code (reply (email_to_email L E key store fromEmail toEmail amountEth memo)) = 400
         \<and> events (email_to_email L E key store fromEmail toEmail amountEth memo) = []
         \<and> watch (email_to_email L E key store fromEmail toEmail amountEth memo) = None"
  using assms by (simp add: email_to_email_def respond_def)

lemma wallet_rejects_non_positive:
  assumes "js_le (parseFloat L amountEth) (Dbl 0)"
  shows "code (reply (wallet_to_wallet L E key store fromWallet toWallet amountEth memo)) = 400
         \<and> events (wallet_to_wallet L E key store fromWallet toWallet amountEth memo) = []
         \<and> watch (wallet_to_wallet L E key store fromWallet toWallet amountEth memo) = None"
  using assms by (simp add: wallet_to_wallet_def respond_def)

text \<open>Past the checks, each handler is the common payment procedure.\<close>

lemma email_to_email_resolved:
  assumes "email_request_valid L fromEmail toEmail amountEth"
    and "resolved L E fromEmail toEmail f t"
  shows "email_to_email L E key store fromEmail toEmail amountEth memo =
         payment L E key store f t amountEth (email_memo L fromEmail toEmail memo)
           (fresh_id E ''email'') [Fetch (EmailLookup fromEmail), Fetch (EmailLookup toEmail)]
           ''Payment submitted successfully'' [(''from_email'', fromEmail), (''to_email'', toEmail)]"
  using assms
  by (simp add: email_to_email_def email_request_valid_def resolved_def is_address_def email_memo_def)

lemma wallet_to_wallet_valid:
  assumes "wallet_request_valid L f t amountEth"
  shows "wallet_to_wallet L E key store (JStr f) (JStr t) amountEth memo =
         payment L E key store f t amountEth
           (if js_truthy memo then memo else JStr ''Direct wallet transfer'')
           (fresh_id E ''wallet'') [] ''Wallet transfer submitted successfully''
           [(''from_wallet'', JStr f), (''to_wallet'', JStr t)]"
  using assms
  by (simp add: wallet_to_wallet_def wallet_request_valid_def is_address_def)

text \<open>
  A string without a numeric prefix parses to \<open>NaN\<close>, and \<open>NaN\<close> fails both comparisons
  of the amount check: the request goes on to the payment procedure.
\<close>

lemma nan_passes_amount_check:
  assumes "parseFloat L amountEth = NaN"
  shows "\<not> js_le (parseFloat L amountEth) (Dbl 0) \<and> \<not> js_gt (parseFloat L amountEth) (Dbl 1000)"
  using assms by (simp add: js_gt_def)

text \<open>
  C1, at the request \<^verbatim>\<open>{fromEmail: "alice@example.com", toEmail: "bob@example.com",
  amountEth: "abc"}\<close> and at \<^verbatim>\<open>{fromWallet, toWallet, amountEth: "abc"}\<close>: the amount is not
  numeric, and yet the handlers ask the chain for the sender's balance and create both
  pending records before the conversion to wei throws and the request ends with a 500.
\<close>

theorem C1_non_numeric_amount_reaches_chain_and_backend:
  "parseFloat lib0 (JStr ''abc'') = NaN
   \<and> code (reply (email_to_email lib0 env0 key0 store0 (JStr ''alice@example.com'')
                    (JStr ''bob@example.com'') (JStr ''abc'') JUndefined)) = 500
   \<and> events (email_to_email lib0 env0 key0 store0 (JStr ''alice@example.com'')
                (JStr ''bob@example.com'') (JStr ''abc'') JUndefined)
       = [Fetch (EmailLookup (JStr ''alice@example.com'')),
          Fetch (EmailLookup (JStr ''bob@example.com'')),
          ChainGetBalance addrA,
          create_event (dual_payload env0 (fresh_id env0 ''email'') (JStr addrA) (JStr addrB)
                          (JStr ''abc'')
                          (JStr ''Payment from alice@example.com to bob@example.com'')
                          ''sender'' True),
          create_event (dual_payload env0 (fresh_id env0 ''email'') (JStr addrA) (JStr addrB)
                          (JStr ''abc'')
                          (JStr ''Payment from alice@example.com to bob@example.com'')
                          ''receiver'' False)]
   \<and> code (reply (wallet_to_wallet lib0 env0 key0 store0 (JStr addrA) (JStr addrB)
                    (JStr ''abc'') JUndefined)) = 500
   \<and> events (wallet_to_wallet lib0 env0 key0 store0 (JStr addrA) (JStr addrB)
                (JStr ''abc'') JUndefined)
       = [ChainGetBalance addrA,
          create_event (dual_payload env0 (fresh_id env0 ''wallet'') (JStr addrA) (JStr addrB)
                          (JStr ''abc'') (JStr ''Direct wallet transfer'') ''sender'' True),
          create_event (dual_payload env0 (fresh_id env0 ''wallet'') (JStr addrA) (JStr addrB)
                          (JStr ''abc'') (JStr ''Direct wallet transfer'') ''receiver'' False)]"
  by (simp add: run_defs fixture_defs)

theorem C1_non_numeric_amount_witness:
  "ChainGetBalance addrA
     \<in> set (events (email_to_email lib0 env0 key0 store0 (JStr ''alice@example.com'')
                      (JStr ''bob@example.com'') (JStr ''abc'') JUndefined))
   \<and> ChainGetBalance addrA
     \<in> set (events (wallet_to_wallet lib0 env0 key0 store0 (JStr addrA) (JStr addrB)
                      (JStr ''abc'') JUndefined))"
  using C1_non_numeric_amount_reaches_chain_and_backend by simp

section \<open>The balance check\<close>

lemma payment_insufficient:
  assumes "getBalance E f = Inr wei"
    and "js_lt (to_double L (of_nat wei / 10 ^ 18)) (parseFloat L amountEth)"
  shows "payment L E key store f t amountEth memo tid evs msg parties =
         respond 400 [(''error'', JStr ''Insufficient balance''),
                      (''available'', JStr (num_to_string L (to_double L (of_nat wei / 10 ^ 18)))),
                      (''required'', JStr (num_to_string L (parseFloat L amountEth)))]
           (evs @ [ChainGetBalance f])"
  using assms by (simp add: payment_def Let_def)

text \<open>
  The comparison is made on two doubles: the balance converted to ETH and rounded, and
  the amount parsed. When the first is less than the second, the request is refused.
\<close>

lemma insufficient_on_doubles:
  assumes "getBalance E f = Inr wei"
    and "js_lt (to_double L (of_nat wei / 10 ^ 18)) (parseFloat L amountEth)"
  shows "(email_request_valid L fromEmail toEmail amountEth \<and> resolved L E fromEmail toEmail f t \<longrightarrow>
            code (reply (email_to_email L E key store fromEmail toEmail amountEth memo)) = 400
          \<and> js_prop (body (reply (email_to_email L E key store fromEmail toEmail amountEth memo)))
                ''error'' = JStr ''Insufficient balance''
          \<and> events (email_to_email L E key store fromEmail toEmail amountEth memo)
              = [Fetch (EmailLookup fromEmail), Fetch (EmailLookup toEmail), ChainGetBalance f]
          \<and> watch (email_to_email L E key store fromEmail toEmail amountEth memo) = None)
       \<and> (wallet_request_valid L f t amountEth \<longrightarrow>
            code (reply (wallet_to_wallet L E key store (JStr f) (JStr t) amountEth memo)) = 400
          \<and> js_prop (body (reply (wallet_to_wallet L E key store (JStr f) (JStr t) amountEth memo)))
                ''error'' = JStr ''Insufficient balance''
          \<and> events (wallet_to_wallet L E key store (JStr f) (JStr t) amountEth memo)
              = [ChainGetBalance f]
          \<and> watch (wallet_to_wallet L E key store (JStr f) (JStr t) amountEth memo) = None)"
proof (intro conjI impI)
  note pay = payment_insufficient [OF assms]
  {
    assume v: "email_request_valid L fromEmail toEmail amountEth
               \<and> resolved L E fromEmail toEmail f t"
    then have eq: "email_to_email L E key store fromEmail toEmail amountEth memo =
        payment L E key store f t amountEth (email_memo L fromEmail toEmail memo)
          (fresh_id E ''email'') [Fetch (EmailLookup fromEmail), Fetch (EmailLookup toEmail)]
          ''Payment submitted successfully'' [(''from_email'', fromEmail), (''to_email'', toEmail)]"
      by (simp add: email_to_email_resolved)
    show "code (reply (email_to_email L E key store fromEmail toEmail amountEth memo)) = 400"
      by (simp add: eq pay respond_def)
    show "js_prop (body (reply (email_to_email L E key store fromEmail toEmail amountEth memo)))
            ''error'' = JStr ''Insufficient balance''"
      by (simp add: eq pay respond_def)
    show "events (email_to_email L E key store fromEmail toEmail amountEth memo)
            = [Fetch (EmailLookup fromEmail), Fetch (EmailLookup toEmail), ChainGetBalance f]"
      by (simp add: eq pay respond_def)
    show "watch (email_to_email L E key store fromEmail toEmail amountEth memo) = None"
      by (simp add: eq pay respond_def)
  }
  {
    assume v: "wallet_request_valid L f t amountEth"
    show "code (reply (wallet_to_wallet L E key store (JStr f) (JStr t) amountEth memo)) = 400"
      by (simp add: wallet_to_wallet_valid [OF v] pay respond_def)
    show "js_prop (body (reply (wallet_to_wallet L E key store (JStr f) (JStr t) amountEth memo)))
            ''error'' = JStr ''Insufficient balance''"
      by (simp add: wallet_to_wallet_valid [OF v] pay respond_def)
    show "events (wallet_to_wallet L E key store (JStr f) (JStr t) amountEth memo)
            = [ChainGetBalance f]"
      by (simp add: wallet_to_wallet_valid [OF v] pay respond_def)
    show "watch (wallet_to_wallet L E key store (JStr f) (JStr t) amountEth memo) = None"
      by (simp add: wallet_to_wallet_valid [OF v] pay respond_def)
  }
qed

text \<open>The scenario of the specification: a balance of 0.1 ETH and the amount \<^verbatim>\<open>"1.0"\<close>.\<close>

lemma insufficient_funds_scenario:
  "code (reply (email_to_email lib0 env_poor key0 store0 (JStr ''alice@example.com'')
                  (JStr ''bob@example.com'') (JStr ''1.0'') JUndefined)) = 400
   \<and> events (email_to_email lib0 env_poor key0 store0 (JStr ''alice@example.com'')
                (JStr ''bob@example.com'') (JStr ''1.0'') JUndefined)
       = [Fetch (EmailLookup (JStr ''alice@example.com'')),
          Fetch (EmailLookup (JStr ''bob@example.com'')), ChainGetBalance addrA]
   \<and> code (reply (wallet_to_wallet lib0 env_poor key0 store0 (JStr addrA) (JStr addrB)
                    (JStr ''1.0'') JUndefined)) = 400
   \<and> events (wallet_to_wallet lib0 env_poor key0 store0 (JStr addrA) (JStr addrB)
                (JStr ''1.0'') JUndefined) = [ChainGetBalance addrA]"
proof -
  have b: "getBalance env_poor addrA = Inr (10 ^ 17)"
    by (simp add: env_poor_def env0_def)
  note lt = one_tenth_less_than_one
  show ?thesis
    using insufficient_on_doubles
            [OF b lt, where fromEmail = "JStr ''alice@example.com''"
               and toEmail = "JStr ''bob@example.com''" and t = addrB and key = key0
               and store = store0 and memo = JUndefined]
          alice_bob_valid alice_bob_resolved_poor addrA_addrB_valid
    by simp
qed

lemma lib1_key: "getPrivateKeyForWallet lib1 key0 store0 addrA = Inr (ustr ''0x01'')"
proof -
  have "decrypt lib1 key0 (encrypt lib0 key0 (replicate 16 1) (ustr ''0x01''))
          = decrypt lib0 key0 (encrypt lib0 key0 (replicate 16 1) (ustr ''0x01''))"
    by (simp add: decrypt_def lib1_def)
  then show ?thesis
    by (simp add: store0_def decrypt_encrypt lib0_cipher well_formed_ustr)
qed

lemma short_balance: "getBalance env_short addrA = Inr 999999999999999999"
  by (simp add: env_short_def env0_def)

lemma short_balance_rounded: "to_double lib1 (of_nat 999999999999999999 / 10 ^ 18) = Dbl 1"
  by (simp add: lib1_def lib0_def to_double1_def)

lemma one_parsed: "parseFloat lib1 (JStr ''1.0'') = Dbl 1"
  by (simp add: run_defs fixture_defs lib1_def to_double1_def)

lemma one_in_wei: "toWei lib1 (JStr ''1.0'') = Inr 1000000000000000000"
  by (simp add: run_defs fixture_defs lib1_def)

lemma short_valid_email:
  "email_request_valid lib1 (JStr ''alice@example.com'') (JStr ''bob@example.com'') (JStr ''1.0'')"
  by (simp add: email_request_valid_def run_defs fixture_defs lib1_def to_double1_def)

lemma short_resolved:
  "resolved lib1 env_short (JStr ''alice@example.com'') (JStr ''bob@example.com'') addrA addrB"
  by (simp add: resolved_def run_defs fixture_defs lib1_def env_short_def)

lemma short_valid_wallet: "wallet_request_valid lib1 addrA addrB (JStr ''1.0'')"
  by (simp add: wallet_request_valid_def run_defs fixture_defs lib1_def to_double1_def)

lemma short_records:
  "fst (createDualTransactionRecords lib1 env_short (JStr addrA) (JStr addrB) (JStr ''1.0'') m tid)
     \<noteq> []
   \<and> snd (createDualTransactionRecords lib1 env_short (JStr addrA) (JStr addrB) (JStr ''1.0'') m tid)
       = [create_event (dual_payload env_short tid (JStr addrA) (JStr addrB) (JStr ''1.0'') m
                          ''sender'' True),
          create_event (dual_payload env_short tid (JStr addrA) (JStr addrB) (JStr ''1.0'') m
                          ''receiver'' False)]"
  by (simp add: run_defs fixture_defs lib1_def env_short_def)

lemma short_send:
  "sendTransactionWithPrivateKey lib1 env_short key0 store0 addrA addrB 1000000000000000000 200000
     = (Inl ''insufficient funds for gas * price + value'',
        [ChainGetTransactionCount addrA, ChainGetGasPrice, ChainSendSigned ''signed-0''])"
  by (simp add: sendTransactionWithPrivateKey_def lib1_key)
     (simp add: lib1_def lib0_def env_short_def env0_def char_of_eq_iff)

lemma short_payment:
  "payment lib1 env_short key0 store0 addrA addrB (JStr ''1.0'') m tid evs msg parties
     = thrown ''insufficient funds for gas * price + value''
         (evs @ [ChainGetBalance addrA,
                 create_event (dual_payload env_short tid (JStr addrA) (JStr addrB) (JStr ''1.0'') m
                                 ''sender'' True),
                 create_event (dual_payload env_short tid (JStr addrA) (JStr addrB) (JStr ''1.0'') m
                                 ''receiver'' False),
                 ChainGetTransactionCount addrA, ChainGetGasPrice, ChainSendSigned ''signed-0''])"
  using short_balance short_balance_rounded one_parsed one_in_wei short_send
        short_records [of m tid]
  by (simp add: payment_def Let_def split_beta)

text \<open>
  C3, at a sender who holds 999999999999999999 wei, one wei less than 1 ETH, and the
  requests \<^verbatim>\<open>{fromEmail: "alice@example.com", toEmail: "bob@example.com",
  amountEth: "1.0"}\<close> and \<^verbatim>\<open>{fromWallet, toWallet, amountEth: "1.0"}\<close>. The balance is less
  than the amount, which is 1000000000000000000 wei. The balance in ETH,
  0.999999999999999999, is rounded to the double 1, and 1 is not less than 1: the
  balance check lets the request through. Both pending records are created and the
  transaction is signed and sent to the chain, which refuses it; the request ends with
  a 500 and the two records stay behind.
\<close>

theorem C3_one_wei_short_passes_balance_check:
  "getBalance env_short addrA = Inr 999999999999999999
   \<and> toWei lib1 (JStr ''1.0'') = Inr 1000000000000000000
   \<and> to_double lib1 (of_nat 999999999999999999 / 10 ^ 18) = Dbl 1
   \<and> parseFloat lib1 (JStr ''1.0'') = Dbl 1
   \<and> code (reply (email_to_email lib1 env_short key0 store0 (JStr ''alice@example.com'')
                    (JStr ''bob@example.com'') (JStr ''1.0'') JUndefined)) = 500
   \<and> events (email_to_email lib1 env_short key0 store0 (JStr ''alice@example.com'')
                (JStr ''bob@example.com'') (JStr ''1.0'') JUndefined)
       = [Fetch (EmailLookup (JStr ''alice@example.com'')),
          Fetch (EmailLookup (JStr ''bob@example.com'')),
          ChainGetBalance addrA,
          create_event (dual_payload env_short (fresh_id env_short ''email'') (JStr addrA)
                          (JStr addrB) (JStr ''1.0'')
                          (JStr ''Payment from alice@example.com to bob@example.com'')
                          ''sender'' True),
          create_event (dual_payload env_short (fresh_id env_short ''email'') (JStr addrA)
                          (JStr addrB) (JStr ''1.0'')
                          (JStr ''Payment from alice@example.com to bob@example.com'')
                          ''receiver'' False),
          ChainGetTransactionCount addrA, ChainGetGasPrice, ChainSendSigned ''signed-0'']
   \<and> code (reply (wallet_to_wallet lib1 env_short key0 store0 (JStr addrA) (JStr addrB)
                    (JStr ''1.0'') JUndefined)) = 500
   \<and> events (wallet_to_wallet lib1 env_short key0 store0 (JStr addrA) (JStr addrB)
                (JStr ''1.0'') JUndefined)
       = [ChainGetBalance addrA,
          create_event (dual_payload env_short (fresh_id env_short ''wallet'') (JStr addrA)
                          (JStr addrB) (JStr ''1.0'') (JStr ''Direct wallet transfer'')
                          ''sender'' True),
          create_event (dual_payload env_short (fresh_id env_short ''wallet'') (JStr addrA)
                          (JStr addrB) (JStr ''1.0'') (JStr ''Direct wallet transfer'')
                          ''receiver'' False),
          ChainGetTransactionCount addrA, ChainGetGasPrice, ChainSendSigned ''signed-0'']"
proof -
  have e: "email_to_email lib1 env_short key0 store0 (JStr ''alice@example.com'')
             (JStr ''bob@example.com'') (JStr ''1.0'') JUndefined
           = payment lib1 env_short key0 store0 addrA addrB (JStr ''1.0'')
               (JStr ''Payment from alice@example.com to bob@example.com'')
               (fresh_id env_short ''email'')
               [Fetch (EmailLookup (JStr ''alice@example.com'')),
                Fetch (EmailLookup (JStr ''bob@example.com''))]
               ''Payment submitted successfully''
               [(''from_email'', JStr ''alice@example.com''),
                (''to_email'', JStr ''bob@example.com'')]"
    by (simp add: email_to_email_resolved [OF short_valid_email short_resolved] email_memo_def)
  have w: "wallet_to_wallet lib1 env_short key0 store0 (JStr addrA) (JStr addrB) (JStr ''1.0'')
             JUndefined
           = payment lib1 env_short key0 store0 addrA addrB (JStr ''1.0'')
               (JStr ''Direct wallet transfer'') (fresh_id env_short ''wallet'') []
               ''Wallet transfer submitted successfully''
               [(''from_wallet'', JStr addrA), (''to_wallet'', JStr addrB)]"
    by (simp add: wallet_to_wallet_valid [OF short_valid_wallet])
  show ?thesis
    unfolding e w short_payment
    using short_balance short_balance_rounded one_parsed one_in_wei
    by (simp add: thrown_def respond_def)
qed

theorem C3_one_wei_short_witness:
  "ChainSendSigned ''signed-0''
     \<in> set (events (email_to_email lib1 env_short key0 store0 (JStr ''alice@example.com'')
                      (JStr ''bob@example.com'') (JStr ''1.0'') JUndefined))
   \<and> ChainSendSigned ''signed-0''
     \<in> set (events (wallet_to_wallet lib1 env_short key0 store0 (JStr addrA) (JStr addrB)
                      (JStr ''1.0'') JUndefined))"
  using C3_one_wei_short_passes_balance_check by simp

section \<open>Record creation and the broadcast\<close>

lemma createDual_nonempty:
  "(fst (createDualTransactionRecords L E (JStr f) (JStr t) amountEth memo tid) \<noteq> [])
     = some_record_created L E tid f t amountEth memo"
  by (auto simp add: createDualTransactionRecords_def some_record_created_def created_def Let_def)

lemma createDual_length:
  "length (fst (createDualTransactionRecords L E s r amountEth memo tid)) \<le> 2"
  by (simp add: createDualTransactionRecords_def Let_def)

lemma createDual_events:
  "ChainSendSigned raw \<notin> set (snd (createDualTransactionRecords L E s r amountEth memo tid))"
  by (simp add: createDualTransactionRecords_def Let_def create_event_def)

lemma updateDual_events:
  "updateDualTransactionStatus L E recs h st extra = (updates, uev)
     \<Longrightarrow> ChainSendSigned raw \<notin> set uev"
  by (auto simp add: updateDualTransactionStatus_def)

lemma send_raw:
  assumes "raw_transaction L E key store f t w = Some raw"
  shows "sendTransactionWithPrivateKey L E key store f t w 200000 =
           (sendSignedTransaction E raw,
            [ChainGetTransactionCount f, ChainGetGasPrice, ChainSendSigned raw])"
  using assms
  by (auto simp add: raw_transaction_def sendTransactionWithPrivateKey_def split: sum.splits)

text \<open>When the transaction cannot be built, the submitter throws before the broadcast.\<close>

lemma send_not_built:
  assumes "raw_transaction L E key store f t w = None"
  shows "\<exists>m sev. sendTransactionWithPrivateKey L E key store f t w 200000 = (Inl m, sev)
                 \<and> ChainSendSigned raw \<notin> set sev"
  using assms
  by (auto simp add: raw_transaction_def sendTransactionWithPrivateKey_def split: sum.splits)

text \<open>
  Past the balance check, the payment procedure broadcasts a transaction exactly when
  some record was created and that transaction could be built.
\<close>

lemma payment_broadcast:
  assumes "getBalance E f = Inr wei"
    and "\<not> js_lt (to_double L (of_nat wei / 10 ^ 18)) (parseFloat L amountEth)"
    and "ChainSendSigned raw \<notin> set evs"
  shows "(ChainSendSigned raw
            \<in> set (events (payment L E key store f t amountEth memo tid evs msg parties)))
           = (some_record_created L E tid f t amountEth memo
              \<and> built_transaction L E key store f t amountEth = Some raw)"
proof -
  obtain recs cev where
    c: "createDualTransactionRecords L E (JStr f) (JStr t) amountEth memo tid = (recs, cev)"
    by (cases "createDualTransactionRecords L E (JStr f) (JStr t) amountEth memo tid")
  have cev: "ChainSendSigned raw \<notin> set cev"
    using createDual_events [of raw L E "JStr f" "JStr t" amountEth memo tid] c by simp
  have ne: "(recs \<noteq> []) = some_record_created L E tid f t amountEth memo"
    using createDual_nonempty [of L E f t amountEth memo tid] c by simp
  show ?thesis
  proof (cases "recs = []")
    case True
    then show ?thesis
      using assms c cev ne by (simp add: payment_def Let_def thrown_def respond_def)
  next
    case False
    show ?thesis
    proof (cases "toWei L amountEth")
      case (Inl m)
      then show ?thesis
        using assms c cev False
        by (simp add: payment_def Let_def thrown_def respond_def built_transaction_def)
    next
      case (Inr w)
      show ?thesis
      proof (cases "raw_transaction L E key store f t w")
        case None
        obtain m sev where
          s: "sendTransactionWithPrivateKey L E key store f t w 200000 = (Inl m, sev)"
          and sev: "ChainSendSigned raw \<notin> set sev"
          using send_not_built [OF None, of raw] by auto
        show ?thesis
          using assms c cev False Inr None s sev
          by (simp add: payment_def Let_def thrown_def respond_def built_transaction_def)
      next
        case (Some raw')
        note s = send_raw [OF Some]
        show ?thesis
          using assms c cev False ne Inr Some
          by (auto simp add: payment_def Let_def s thrown_def respond_def built_transaction_def
                split: prod.splits sum.splits dest: updateDual_events)
      qed
    qed
  qed
qed

lemma payment_no_records:
  assumes "getBalance E f = Inr wei"
    and "\<not> js_lt (to_double L (of_nat wei / 10 ^ 18)) (parseFloat L amountEth)"
    and "\<not> some_record_created L E tid f t amountEth memo"
  shows "reply (payment L E key store f t amountEth memo tid evs msg parties) =
           \<lparr>code = 500, body = JObj [(''success'', JBool False),
                                     (''error'', JStr ''Failed to create transaction records'')]\<rparr>"
proof -
  obtain recs cev where
    c: "createDualTransactionRecords L E (JStr f) (JStr t) amountEth memo tid = (recs, cev)"
    by (cases "createDualTransactionRecords L E (JStr f) (JStr t) amountEth memo tid")
  have "recs = []"
    using createDual_nonempty [of L E f t amountEth memo tid] c assms(3) by simp
  then show ?thesis
    using assms c by (simp add: payment_def Let_def thrown_def respond_def)
qed

text \<open>
  C2, as the claim states it, fails: the request is valid, the sender can pay, the
  transaction can be signed, and the backend refuses both records. The handler stops
  with a 500 after the two refused creations; nothing is broadcast.
\<close>

theorem C2_no_record_no_broadcast_counterexample:
  "email_request_valid lib0 (JStr ''alice@example.com'') (JStr ''bob@example.com'') (JStr ''1.0'')
   \<and> resolved lib0 env_down (JStr ''alice@example.com'') (JStr ''bob@example.com'') addrA addrB
   \<and> getBalance env_down addrA = Inr (2 * 10 ^ 18)
   \<and> toWei lib0 (JStr ''1.0'') = Inr (10 ^ 18)
   \<and> raw_transaction lib0 env_down key0 store0 addrA addrB (10 ^ 18) = Some ''signed-0''
   \<and> reply (email_to_email lib0 env_down key0 store0 (JStr ''alice@example.com'')
              (JStr ''bob@example.com'') (JStr ''1.0'') JUndefined)
       = \<lparr>code = 500, body = JObj [(''success'', JBool False),
                                   (''error'', JStr ''Failed to create transaction records'')]\<rparr>
   \<and> events (email_to_email lib0 env_down key0 store0 (JStr ''alice@example.com'')
                (JStr ''bob@example.com'') (JStr ''1.0'') JUndefined)
       = [Fetch (EmailLookup (JStr ''alice@example.com'')),
          Fetch (EmailLookup (JStr ''bob@example.com'')),
          ChainGetBalance addrA,
          create_event (dual_payload env_down (fresh_id env_down ''email'') (JStr addrA)
                          (JStr addrB) (JStr ''1.0'')
                          (JStr ''Payment from alice@example.com to bob@example.com'')
                          ''sender'' True),
          create_event (dual_payload env_down (fresh_id env_down ''email'') (JStr addrA)
                          (JStr addrB) (JStr ''1.0'')
                          (JStr ''Payment from alice@example.com to bob@example.com'')
                          ''receiver'' False)]"
proof (intro conjI)
  show "raw_transaction lib0 env_down key0 store0 addrA addrB (10 ^ 18) = Some ''signed-0''"
    by (simp add: raw_transaction_def store0_key)
       (simp add: lib0_def env_down_def env0_def char_of_eq_iff)
qed (simp_all add: alice_bob_valid alice_bob_resolved_down, simp_all add: run_defs fixture_defs)

text \<open>
  C2, amended: for every payment request that passed validation, the resolution of the
  two identities and the balance check, a signed transaction is broadcast if and only if
  at least one of the two pending records was created and the transaction could be
  built: the amount converts to wei, the sender's key is in the vault and is decrypted,
  the chain answers the queries for the nonce and for the gas price, and the signing
  succeeds. The creation of records is best-effort as long as one record exists:
  \<open>createDualTransactionRecords\<close> never throws and returns the records the backend
  accepted, at most two. When no record was created, the handler answers 500
  \<^verbatim>\<open>Failed to create transaction records\<close> and nothing is broadcast.
\<close>

theorem C2_broadcast_iff_record_created_and_built:
  assumes "getBalance E f = Inr wei"
    and "\<not> js_lt (to_double L (of_nat wei / 10 ^ 18)) (parseFloat L amountEth)"
  shows "(email_request_valid L fromEmail toEmail amountEth \<and> resolved L E fromEmail toEmail f t \<longrightarrow>
            ((ChainSendSigned raw
                \<in> set (events (email_to_email L E key store fromEmail toEmail amountEth memo)))
               = (some_record_created L E (fresh_id E ''email'') f t amountEth
                    (email_memo L fromEmail toEmail memo)
                  \<and> built_transaction L E key store f t amountEth = Some raw))
          \<and> (\<not> some_record_created L E (fresh_id E ''email'') f t amountEth
                   (email_memo L fromEmail toEmail memo) \<longrightarrow>
               reply (email_to_email L E key store fromEmail toEmail amountEth memo)
                 = \<lparr>code = 500,
                    body = JObj [(''success'', JBool False),
                                 (''error'', JStr ''Failed to create transaction records'')]\<rparr>))
       \<and> (wallet_request_valid L f t amountEth \<longrightarrow>
            ((ChainSendSigned raw
                \<in> set (events (wallet_to_wallet L E key store (JStr f) (JStr t) amountEth memo)))
               = (some_record_created L E (fresh_id E ''wallet'') f t amountEth
                    (if js_truthy memo then memo else JStr ''Direct wallet transfer'')
                  \<and> built_transaction L E key store f t amountEth = Some raw))
          \<and> (\<not> some_record_created L E (fresh_id E ''wallet'') f t amountEth
                   (if js_truthy memo then memo else JStr ''Direct wallet transfer'') \<longrightarrow>
               reply (wallet_to_wallet L E key store (JStr f) (JStr t) amountEth memo)
                 = \<lparr>code = 500,
                    body = JObj [(''success'', JBool False),
                                 (''error'', JStr ''Failed to create transaction records'')]\<rparr>))
       \<and> length (fst (createDualTransactionRecords L E s r amountEth memo tid)) \<le> 2"
proof (intro conjI impI)
  {
    assume v: "email_request_valid L fromEmail toEmail amountEth
               \<and> resolved L E fromEmail toEmail f t"
    then have eq: "email_to_email L E key store fromEmail toEmail amountEth memo =
        payment L E key store f t amountEth (email_memo L fromEmail toEmail memo)
          (fresh_id E ''email'') [Fetch (EmailLookup fromEmail), Fetch (EmailLookup toEmail)]
          ''Payment submitted successfully'' [(''from_email'', fromEmail), (''to_email'', toEmail)]"
      by (simp add: email_to_email_resolved)
    show "(ChainSendSigned raw
             \<in> set (events (email_to_email L E key store fromEmail toEmail amountEth memo)))
            = (some_record_created L E (fresh_id E ''email'') f t amountEth
                 (email_memo L fromEmail toEmail memo)
               \<and> built_transaction L E key store f t amountEth = Some raw)"
      unfolding eq by (rule payment_broadcast [OF assms]) simp
    assume "\<not> some_record_created L E (fresh_id E ''email'') f t amountEth
                 (email_memo L fromEmail toEmail memo)"
    then show "reply (email_to_email L E key store fromEmail toEmail amountEth memo)
                 = \<lparr>code = 500,
                    body = JObj [(''success'', JBool False),
                                 (''error'', JStr ''Failed to create transaction records'')]\<rparr>"
      unfolding eq by (rule payment_no_records [OF assms])
  }
  {
    assume v: "wallet_request_valid L f t amountEth"
    note eq = wallet_to_wallet_valid [OF v]
    show "(ChainSendSigned raw
             \<in> set (events (wallet_to_wallet L E key store (JStr f) (JStr t) amountEth memo)))
            = (some_record_created L E (fresh_id E ''wallet'') f t amountEth
                 (if js_truthy memo then memo else JStr ''Direct wallet transfer'')
               \<and> built_transaction L E key store f t amountEth = Some raw)"
      unfolding eq by (rule payment_broadcast [OF assms]) simp
    assume "\<not> some_record_created L E (fresh_id E ''wallet'') f t amountEth
                 (if js_truthy memo then memo else JStr ''Direct wallet transfer'')"
    then show "reply (wallet_to_wallet L E key store (JStr f) (JStr t) amountEth memo)
                 = \<lparr>code = 500,
                    body = JObj [(''success'', JBool False),
                                 (''error'', JStr ''Failed to create transaction records'')]\<rparr>"
      unfolding eq by (rule payment_no_records [OF assms])
  }
  show "length (fst (createDualTransactionRecords L E s r amountEth memo tid)) \<le> 2"
    by (rule createDual_length)
qed

lemma half_created_email:
  "some_record_created lib0 env_half (fresh_id env_half ''email'') addrA addrB (JStr ''1.0'')
     (email_memo lib0 (JStr ''alice@example.com'') (JStr ''bob@example.com'') JUndefined)"
  by (simp add: some_record_created_def created_def email_memo_def run_defs fixture_defs)

lemma half_sender_refused:
  "\<not> created lib0 env_half
       (dual_payload env_half (fresh_id env_half ''email'') (JStr addrA) (JStr addrB) (JStr ''1.0'')
          (email_memo lib0 (JStr ''alice@example.com'') (JStr ''bob@example.com'') JUndefined)
          ''sender'' True)"
  by (simp add: created_def email_memo_def run_defs fixture_defs)

lemma half_created_wallet:
  "some_record_created lib0 env_half (fresh_id env_half ''wallet'') addrA addrB (JStr ''1.0'')
     (JStr ''Direct wallet transfer'')"
  by (simp add: some_record_created_def created_def run_defs fixture_defs)

lemma half_raw:
  "raw_transaction lib0 env_half key0 store0 addrA addrB (10 ^ 18) = Some ''signed-0''"
  by (simp add: raw_transaction_def store0_key)
     (simp add: lib0_def env_half_def env0_def char_of_eq_iff)

lemma one_eth_in_wei: "toWei lib0 (JStr ''1.0'') = Inr (10 ^ 18)"
  by (simp add: run_defs fixture_defs)

lemma half_built:
  "built_transaction lib0 env_half key0 store0 addrA addrB (JStr ''1.0'') = Some ''signed-0''"
  using half_raw by (simp add: built_transaction_def one_eth_in_wei)

text \<open>With an empty vault the transaction cannot be built.\<close>

lemma empty_vault_not_built:
  "built_transaction lib0 env_half key0 [] addrA addrB (JStr ''1.0'') = None"
  by (simp add: built_transaction_def one_eth_in_wei raw_transaction_def)

theorem C2_broadcast_iff_record_created_and_built_witness:
  "getBalance env_half addrA = Inr (2 * 10 ^ 18)
   \<and> \<not> js_lt (to_double lib0 (of_nat (2 * 10 ^ 18) / 10 ^ 18)) (parseFloat lib0 (JStr ''1.0''))
   \<and> email_request_valid lib0 (JStr ''alice@example.com'') (JStr ''bob@example.com'') (JStr ''1.0'')
   \<and> resolved lib0 env_half (JStr ''alice@example.com'') (JStr ''bob@example.com'') addrA addrB
   \<and> wallet_request_valid lib0 addrA addrB (JStr ''1.0'')
   \<and> \<not> created lib0 env_half
         (dual_payload env_half (fresh_id env_half ''email'') (JStr addrA) (JStr addrB)
            (JStr ''1.0'')
            (email_memo lib0 (JStr ''alice@example.com'') (JStr ''bob@example.com'') JUndefined)
            ''sender'' True)
   \<and> built_transaction lib0 env_half key0 store0 addrA addrB (JStr ''1.0'') = Some ''signed-0''
   \<and> ChainSendSigned ''signed-0''
       \<in> set (events (email_to_email lib0 env_half key0 store0 (JStr ''alice@example.com'')
                        (JStr ''bob@example.com'') (JStr ''1.0'') JUndefined))
   \<and> ChainSendSigned ''signed-0''
       \<in> set (events (wallet_to_wallet lib0 env_half key0 store0 (JStr addrA) (JStr addrB)
                        (JStr ''1.0'') JUndefined))
   \<and> built_transaction lib0 env_half key0 [] addrA addrB (JStr ''1.0'') = None
   \<and> ChainSendSigned ''signed-0''
       \<notin> set (events (wallet_to_wallet lib0 env_half key0 [] (JStr addrA) (JStr addrB)
                        (JStr ''1.0'') JUndefined))"
proof -
  have b: "getBalance env_half addrA = Inr (2 * 10 ^ 18)"
    by (simp add: env_half_def env0_def)
  note nlt = two_not_less_than_one
  note th = C2_broadcast_iff_record_created_and_built
              [OF b nlt, where fromEmail = "JStr ''alice@example.com''"
                 and toEmail = "JStr ''bob@example.com''" and memo = JUndefined
                 and t = addrB and raw = "''signed-0''"]
  note em = th [where key = key0 and store = store0, THEN conjunct1, THEN mp,
                OF conjI [OF alice_bob_valid alice_bob_resolved_half], THEN conjunct1]
  note wa = th [where key = key0 and store = store0, THEN conjunct2, THEN conjunct1, THEN mp,
                OF addrA_addrB_valid, THEN conjunct1]
  note wn = th [where key = key0 and store = "[]", THEN conjunct2, THEN conjunct1, THEN mp,
                OF addrA_addrB_valid, THEN conjunct1]
  have e: "ChainSendSigned ''signed-0''
       \<in> set (events (email_to_email lib0 env_half key0 store0 (JStr ''alice@example.com'')
                        (JStr ''bob@example.com'') (JStr ''1.0'') JUndefined))"
    unfolding em using half_created_email half_built by simp
  have w: "ChainSendSigned ''signed-0''
       \<in> set (events (wallet_to_wallet lib0 env_half key0 store0 (JStr addrA) (JStr addrB)
                        (JStr ''1.0'') JUndefined))"
    unfolding wa using half_created_wallet half_built by simp
  have n: "ChainSendSigned ''signed-0''
       \<notin> set (events (wallet_to_wallet lib0 env_half key0 [] (JStr addrA) (JStr addrB)
                        (JStr ''1.0'') JUndefined))"
    unfolding wn using empty_vault_not_built by simp
  show ?thesis
    by (intro conjI b nlt alice_bob_valid alice_bob_resolved_half addrA_addrB_valid
          half_sender_refused half_built e w empty_vault_not_built n)
qed

section \<open>Key resolution\<close>

lemma getPrivateKey_is_spec:
  "getPrivateKeyForWallet L key store a = resolvePrivateKey_spec L key store a"
  by (induction store) (auto simp add: resolvePrivateKey_spec_def)

lemma getPrivateKey_no_match:
  "list_all (\<lambda>e. toLowerCase (address (snd e)) \<noteq> toLowerCase a) store
     \<Longrightarrow> getPrivateKeyForWallet L key store a = Inl (NotFound a)"
  by (induction store) auto

lemma getPrivateKey_first_match:
  "list_all (\<lambda>e. toLowerCase (address (snd e)) \<noteq> toLowerCase a) pre
     \<Longrightarrow> toLowerCase (address w) = toLowerCase a
     \<Longrightarrow> getPrivateKeyForWallet L key (pre @ (uid, w) # post) a = decrypt L key (encryptedKey w)"
  by (induction pre) auto

text \<open>
  C9: the loop of \<open>getPrivateKeyForWallet\<close> is the scan the specification describes.
  When no stored address equals the queried one, letter case aside, it throws
  \<open>NotFound\<close>; otherwise it returns what \<open>decrypt\<close> gives for the first record that
  matches, whatever follows it in the store.
\<close>

theorem C9_key_resolution_is_first_match_scan:
  "getPrivateKeyForWallet L key store a = resolvePrivateKey_spec L key store a
   \<and> (list_all (\<lambda>e. toLowerCase (address (snd e)) \<noteq> toLowerCase a) store
        \<longrightarrow> getPrivateKeyForWallet L key store a = Inl (NotFound a))
   \<and> (list_all (\<lambda>e. toLowerCase (address (snd e)) \<noteq> toLowerCase a) pre
        \<and> toLowerCase (address w) = toLowerCase a
        \<longrightarrow> getPrivateKeyForWallet L key (pre @ (uid, w) # post) a
              = decrypt L key (encryptedKey w))"
  by (simp add: getPrivateKey_is_spec [symmetric] getPrivateKey_no_match getPrivateKey_first_match)

theorem C9_key_resolution_witness:
  "list_all (\<lambda>e. toLowerCase (address (snd e)) \<noteq> toLowerCase addrC) store1
   \<and> getPrivateKeyForWallet lib0 key0 store1 addrC = Inl (NotFound addrC)
   \<and> list_all (\<lambda>e. toLowerCase (address (snd e)) \<noteq> toLowerCase ''0xAAAAAAAAAAAAAAAAAAAAAAAAAAAAAAAAAAAAAAAA'')
        [hd store1]
   \<and> toLowerCase (address (snd (store1 ! 1))) = toLowerCase ''0xAAAAAAAAAAAAAAAAAAAAAAAAAAAAAAAAAAAAAAAA''
   \<and> getPrivateKeyForWallet lib0 key0 store1 ''0xAAAAAAAAAAAAAAAAAAAAAAAAAAAAAAAAAAAAAAAA''
       = Inr (ustr ''0x01'')"
proof -
  have n: "list_all (\<lambda>e. toLowerCase (address (snd e)) \<noteq> toLowerCase addrC) store1"
    by (simp add: store1_def upper_A_lower lower_fixed) (simp add: addrA_def addrB_def addrC_def)
  have p: "list_all (\<lambda>e. toLowerCase (address (snd e))
                          \<noteq> toLowerCase ''0xAAAAAAAAAAAAAAAAAAAAAAAAAAAAAAAAAAAAAAAA'') [hd store1]"
    by (simp add: store1_def upper_A_lower lower_fixed) (simp add: addrA_def addrB_def)
  have m: "toLowerCase (address (snd (store1 ! 1)))
             = toLowerCase ''0xAAAAAAAAAAAAAAAAAAAAAAAAAAAAAAAAAAAAAAAA''"
    by (simp add: store1_def upper_A_lower lower_fixed)
  have s: "store1 = [hd store1] @ (''1'', snd (store1 ! 1)) # [store1 ! 2]"
    by (simp add: store1_def)
  have d: "decrypt lib0 key0 (encryptedKey (snd (store1 ! 1))) = Inr (ustr ''0x01'')"
    by (simp add: store1_def decrypt_encrypt lib0_cipher well_formed_ustr)
  have "getPrivateKeyForWallet lib0 key0 ([hd store1] @ (''1'', snd (store1 ! 1)) # [store1 ! 2])
          ''0xAAAAAAAAAAAAAAAAAAAAAAAAAAAAAAAAAAAAAAAA'' = Inr (ustr ''0x01'')"
    using C9_key_resolution_is_first_match_scan
            [where L = lib0 and key = key0 and store = store1 and pre = "[hd store1]"
               and a = "''0xAAAAAAAAAAAAAAAAAAAAAAAAAAAAAAAAAAAAAAAA''"
               and w = "snd (store1 ! 1)" and uid = "''1''" and post = "[store1 ! 2]"]
          p m d
    by metis
  moreover have "getPrivateKeyForWallet lib0 key0 store1 addrC = Inl (NotFound addrC)"
    using C9_key_resolution_is_first_match_scan
            [where L = lib0 and key = key0 and store = store1 and a = addrC] n
    by blast
  ultimately show ?thesis using n p m s by simp
qed

section \<open>Bootstrap funding\<close>

lemma faucet_ineligible:
  assumes "\<not> isWalletEligibleForBonus fs (str_of toWallet)"
  shows "events (faucet L E fs toWallet amountEth) = []"
    and "funded_after (faucet L E fs toWallet amountEth) = fs"
    and "watch (faucet L E fs toWallet amountEth) = None"
    and "code (reply (faucet L E fs toWallet amountEth)) = 429
         \<or> code (reply (faucet L E fs toWallet amountEth)) = 400"
    and "faucet_request_valid L toWallet amountEth
         \<Longrightarrow> code (reply (faucet L E fs toWallet amountEth)) = 429"
  using assms
  by (simp_all add: faucet_def faucet_reply_def respond_def faucet_request_valid_def)

lemma faucet_success_marks_funded:
  assumes "code (reply (faucet L E fs toWallet amountEth)) = 200"
  shows "funded_after (faucet L E fs toWallet amountEth)
           = markWalletFunded fs (str_of toWallet) (date_now E)"
    and "isAddress L (str_of toWallet)"
  using assms
  by (auto simp add: faucet_def faucet_reply_def respond_def thrown_def Let_def is_address_def
           split: if_splits sum.splits jsval.splits)

lemma marked_not_eligible: "\<not> isWalletEligibleForBonus (markWalletFunded fs a now) a"
  by (simp add: isWalletEligibleForBonus_def markWalletFunded_def)

text \<open>
  C4: an address is eligible exactly when the store has no record for it or its record
  is not funded. A faucet request for an address that is not eligible is refused with
  no call to the backend or the chain and no change of the store, with 429 when its
  fields are valid (a request with invalid fields is refused with 400 first). After a
  faucet request answered with 200, the store marks the recipient funded and the
  eligibility query for it answers \<^verbatim>\<open>eligible: false\<close>.
\<close>

theorem C4_funding_eligibility:
  "(isWalletEligibleForBonus fs a = (fs a = None \<or> (\<exists>r. fs a = Some r \<and> \<not> funded r)))
   \<and> (\<not> isWalletEligibleForBonus fs (str_of toWallet) \<longrightarrow>
         events (faucet L E fs toWallet amountEth) = []
       \<and> funded_after (faucet L E fs toWallet amountEth) = fs
       \<and> watch (faucet L E fs toWallet amountEth) = None
       \<and> (code (reply (faucet L E fs toWallet amountEth)) = 429
          \<or> code (reply (faucet L E fs toWallet amountEth)) = 400)
       \<and> (faucet_request_valid L toWallet amountEth
            \<longrightarrow> code (reply (faucet L E fs toWallet amountEth)) = 429))
   \<and> (code (reply (faucet L E fs toWallet amountEth)) = 200 \<longrightarrow>
         \<not> isWalletEligibleForBonus (funded_after (faucet L E fs toWallet amountEth)) (str_of toWallet)
       \<and> bonus_eligible L (funded_after (faucet L E fs toWallet amountEth)) (str_of toWallet)
           = \<lparr>code = 200, body = JObj [(''success'', JBool True), (''eligible'', JBool False)]\<rparr>)"
proof (intro conjI impI)
  show "isWalletEligibleForBonus fs a = (fs a = None \<or> (\<exists>r. fs a = Some r \<and> \<not> funded r))"
    by (cases "fs a") (simp_all add: isWalletEligibleForBonus_def)
next
  assume ok: "code (reply (faucet L E fs toWallet amountEth)) = 200"
  show "\<not> isWalletEligibleForBonus (funded_after (faucet L E fs toWallet amountEth)) (str_of toWallet)"
    by (simp add: faucet_success_marks_funded(1) [OF ok] marked_not_eligible)
  show "bonus_eligible L (funded_after (faucet L E fs toWallet amountEth)) (str_of toWallet)
          = \<lparr>code = 200, body = JObj [(''success'', JBool True), (''eligible'', JBool False)]\<rparr>"
    by (simp add: bonus_eligible_def faucet_success_marks_funded [OF ok] marked_not_eligible)
qed (simp_all add: faucet_ineligible)

lemma faucet_first_run:
  "code (reply (faucet lib0 env0 Map.empty (JStr addrA) (JStr ''1.0''))) = 200"
  by (simp add: faucet_def faucet_reply_def faucet_payload_def isWalletEligibleForBonus_def
        run_defs fixture_defs)

lemma addrA_faucet_valid: "faucet_request_valid lib0 (JStr addrA) (JStr ''1.0'')"
  by (simp add: faucet_request_valid_def run_defs fixture_defs)

theorem C4_funding_eligibility_witness:
  "isWalletEligibleForBonus Map.empty addrA
   \<and> code (reply (faucet lib0 env0 Map.empty (JStr addrA) (JStr ''1.0''))) = 200
   \<and> \<not> isWalletEligibleForBonus
         (funded_after (faucet lib0 env0 Map.empty (JStr addrA) (JStr ''1.0''))) addrA
   \<and> bonus_eligible lib0 (funded_after (faucet lib0 env0 Map.empty (JStr addrA) (JStr ''1.0''))) addrA
       = \<lparr>code = 200, body = JObj [(''success'', JBool True), (''eligible'', JBool False)]\<rparr>
   \<and> faucet_request_valid lib0 (JStr addrA) (JStr ''1.0'')
   \<and> code (reply (faucet lib0 env0
                    (funded_after (faucet lib0 env0 Map.empty (JStr addrA) (JStr ''1.0'')))
                    (JStr addrA) (JStr ''1.0''))) = 429
   \<and> events (faucet lib0 env0
                (funded_after (faucet lib0 env0 Map.empty (JStr addrA) (JStr ''1.0'')))
                (JStr addrA) (JStr ''1.0'')) = []"
proof -
  let ?fs = "funded_after (faucet lib0 env0 Map.empty (JStr addrA) (JStr ''1.0''))"
  have e: "isWalletEligibleForBonus Map.empty addrA"
    using C4_funding_eligibility [of Map.empty addrA] by simp
  have n: "\<not> isWalletEligibleForBonus ?fs (str_of (JStr addrA))"
    using C4_funding_eligibility [of Map.empty addrA "JStr addrA" lib0 env0 "JStr ''1.0''"]
          faucet_first_run
    by simp
  show ?thesis
    using C4_funding_eligibility [of Map.empty addrA "JStr addrA" lib0 env0 "JStr ''1.0''"]
          C4_funding_eligibility [of ?fs addrA "JStr addrA" lib0 env0 "JStr ''1.0''"]
          faucet_first_run addrA_faucet_valid e n
    by simp
qed

section \<open>The settlement watcher\<close>

lemma waitForReceipt_timeout:
  "list_all (\<lambda>t. getTransactionReceipt E txHash t = Inr None)
      (poll_times timeoutMs pollInterval start now)
   \<Longrightarrow> waitForReceipt E txHash timeoutMs pollInterval start now
        = Inl ''Timeout waiting for transaction receipt''"
proof (induction E txHash timeoutMs pollInterval start now rule: waitForReceipt.induct)
  case (1 E txHash timeoutMs pollInterval start now)
  show ?case
  proof (cases "now - start < timeoutMs")
    case True
    then have here: "getTransactionReceipt E txHash now = Inr None"
      and rest: "list_all (\<lambda>t. getTransactionReceipt E txHash t = Inr None)
                   (poll_times timeoutMs pollInterval start (now + max 1 pollInterval))"
      using "1.prems" by (simp_all add: poll_times.simps [of timeoutMs pollInterval start now])
    have "waitForReceipt E txHash timeoutMs pollInterval start (now + max 1 pollInterval)
            = Inl ''Timeout waiting for transaction receipt''"
      by (rule "1.IH" [OF True here refl rest])
    then show ?thesis
      using True here by (simp add: waitForReceipt.simps [of E txHash timeoutMs pollInterval start now])
  next
    case False
    then show ?thesis
      by (simp add: waitForReceipt.simps [of E txHash timeoutMs pollInterval start now])
  qed
qed

text \<open>What \<open>waitForReceipt\<close> throws was thrown by a poll, or is the time-out after polls
  that all found no receipt.\<close>

lemma waitForReceipt_error:
  "waitForReceipt E txHash timeoutMs pollInterval start now = Inl m
   \<Longrightarrow> list_ex (\<lambda>t. getTransactionReceipt E txHash t = Inl m)
         (poll_times timeoutMs pollInterval start now)
       \<or> (m = ''Timeout waiting for transaction receipt''
          \<and> list_all (\<lambda>t. getTransactionReceipt E txHash t = Inr None)
               (poll_times timeoutMs pollInterval start now))"
proof (induction E txHash timeoutMs pollInterval start now rule: waitForReceipt.induct)
  case (1 E txHash timeoutMs pollInterval start now)
  show ?case
  proof (cases "now - start < timeoutMs")
    case True
    note w = waitForReceipt.simps [of E txHash timeoutMs pollInterval start now]
    note p = poll_times.simps [of timeoutMs pollInterval start now]
    show ?thesis
    proof (cases "getTransactionReceipt E txHash now")
      case (Inl e)
      then show ?thesis using True "1.prems" by (simp add: w p)
    next
      case (Inr ro)
      show ?thesis
      proof (cases ro)
        case None
        then have "waitForReceipt E txHash timeoutMs pollInterval start (now + max 1 pollInterval) = Inl m"
          using True Inr "1.prems" by (simp add: w)
        then have "list_ex (\<lambda>t. getTransactionReceipt E txHash t = Inl m)
                     (poll_times timeoutMs pollInterval start (now + max 1 pollInterval))
                 \<or> (m = ''Timeout waiting for transaction receipt''
                    \<and> list_all (\<lambda>t. getTransactionReceipt E txHash t = Inr None)
                         (poll_times timeoutMs pollInterval start (now + max 1 pollInterval)))"
          using "1.IH" True Inr None by blast
        then show ?thesis using True Inr None by (auto simp add: p)
      next
        case (Some r)
        then show ?thesis using True Inr "1.prems" by (simp add: w)
      qed
    qed
  next
    case False
    then show ?thesis
      using "1.prems"
      by (simp add: waitForReceipt.simps [of E txHash timeoutMs pollInterval start now]
            poll_times.simps [of timeoutMs pollInterval start now])
  qed
qed

lemma waitForReceipt_first_poll:
  "0 < timeoutMs \<Longrightarrow> getTransactionReceipt E txHash start = Inr (Some receipt)
   \<Longrightarrow> waitForReceipt E txHash timeoutMs pollInterval start start = Inr receipt"
  by (simp add: waitForReceipt.simps [of E txHash timeoutMs pollInterval start start])

lemma watcher_timeout:
  assumes "waitForReceipt E (w_txHash task) 120000 2000 start start = Inl m"
  shows "settlement_watcher L E task start =
           map (\<lambda>r. Fetch (PostWebhook (update_body (w_txHash task) ''failed''
                  (dual_update_extra r [(''error_message'', JStr m)])))) (w_records task)"
  using assms by (simp add: settlement_watcher_def updateDualTransactionStatus_def)

lemma watcher_reverted:
  assumes "waitForReceipt E (w_txHash task) 120000 2000 start start = Inr receipt"
    and "\<not> rc_status receipt"
    and "getBlock E (blockNumber receipt) = Inr block"
  shows "settlement_watcher L E task start =
           map (reverted_update (w_txHash task) receipt block) (w_records task)"
  using assms
  by (simp add: settlement_watcher_def updateDualTransactionStatus_def reverted_update_def)

lemma timeout_update_fields:
  "js_prop (update_of (timeout_update txHash r)) ''status'' = JStr ''failed''"
  "js_prop (update_of (timeout_update txHash r)) ''error_message''
     = JStr ''Timeout waiting for transaction receipt''"
  by (simp_all add: timeout_update_def update_of_def update_body_def dual_update_extra_def
        spread_def)

lemma reverted_update_fields:
  "js_prop (update_of (reverted_update txHash receipt block r)) ''status'' = JStr ''failed''"
  "js_prop (update_of (reverted_update txHash receipt block r)) ''error_message''
     = JStr ''Transaction failed on blockchain''"
  by (simp_all add: reverted_update_def update_of_def update_body_def dual_update_extra_def
        spread_def)

lemma waitForReceipt_found:
  "poll_times timeoutMs pollInterval start now = pre @ t # post
   \<Longrightarrow> list_all (\<lambda>t. getTransactionReceipt E txHash t = Inr None) pre
   \<Longrightarrow> getTransactionReceipt E txHash t = Inr (Some receipt)
   \<Longrightarrow> waitForReceipt E txHash timeoutMs pollInterval start now = Inr receipt"
proof (induction pre arbitrary: now)
  case Nil
  from Nil.prems(1) have a: "now - start < timeoutMs" and b: "now = t"
    by (auto simp add: poll_times.simps [of timeoutMs pollInterval start now] split: if_splits)
  have "waitForReceipt E txHash timeoutMs pollInterval start t = Inr receipt"
    using a Nil.prems(3) unfolding b
    by (subst waitForReceipt.simps) simp
  then show ?case unfolding b .
next
  case (Cons x pre)
  from Cons.prems(1) have a: "now - start < timeoutMs" and b: "now = x"
    and c: "poll_times timeoutMs pollInterval start (now + max 1 pollInterval) = pre @ t # post"
    by (auto simp add: poll_times.simps [of timeoutMs pollInterval start now] split: if_splits)
  from Cons.prems(2) have n: "getTransactionReceipt E txHash x = Inr None"
    and r: "list_all (\<lambda>t. getTransactionReceipt E txHash t = Inr None) pre"
    by simp_all
  have i: "waitForReceipt E txHash timeoutMs pollInterval start (now + max 1 pollInterval)
          = Inr receipt"
    by (rule Cons.IH [OF c r Cons.prems(3)])
  have "waitForReceipt E txHash timeoutMs pollInterval start x = Inr receipt"
    using a n i unfolding b
    by (subst waitForReceipt.simps) simp
  then show ?case unfolding b .
qed

text \<open>
  C6: a receipt, whatever its status, ends the wait as a value; a receipt that reports
  failure makes the watcher write the status \<^verbatim>\<open>failed\<close> with the message
  \<^verbatim>\<open>Transaction failed on blockchain\<close> to every record. When every poll of the
  120 seconds finds no receipt, \<open>waitForReceipt\<close> throws the time-out error, and the
  watcher writes \<^verbatim>\<open>failed\<close> with the message \<^verbatim>\<open>Timeout waiting for transaction
  receipt\<close>. An error thrown by \<open>waitForReceipt\<close> is the time-out after polls that all
  found nothing, unless a poll itself threw it. The two updates differ in their message.
\<close>

theorem C6_watcher_failed_and_timeout:
  "(list_all (\<lambda>t. getTransactionReceipt E (w_txHash task) t = Inr None)
       (poll_times 120000 2000 start start) \<longrightarrow>
      waitForReceipt E (w_txHash task) 120000 2000 start start
        = Inl ''Timeout waiting for transaction receipt''
    \<and> settlement_watcher L E task start = map (timeout_update (w_txHash task)) (w_records task))
   \<and> (poll_times 120000 2000 start start = pre @ t # post
       \<and> list_all (\<lambda>t. getTransactionReceipt E (w_txHash task) t = Inr None) pre
       \<and> getTransactionReceipt E (w_txHash task) t = Inr (Some receipt)
       \<and> \<not> rc_status receipt \<and> getBlock E (blockNumber receipt) = Inr block \<longrightarrow>
      waitForReceipt E (w_txHash task) 120000 2000 start start = Inr receipt
    \<and> settlement_watcher L E task start
        = map (reverted_update (w_txHash task) receipt block) (w_records task))
   \<and> (waitForReceipt E (w_txHash task) 120000 2000 start start = Inl m \<longrightarrow>
        list_ex (\<lambda>t. getTransactionReceipt E (w_txHash task) t = Inl m)
          (poll_times 120000 2000 start start)
      \<or> (m = ''Timeout waiting for transaction receipt''
         \<and> list_all (\<lambda>t. getTransactionReceipt E (w_txHash task) t = Inr None)
              (poll_times 120000 2000 start start)))
   \<and> js_prop (update_of (timeout_update txHash r)) ''status'' = JStr ''failed''
   \<and> js_prop (update_of (timeout_update txHash r)) ''error_message''
       = JStr ''Timeout waiting for transaction receipt''
   \<and> js_prop (update_of (reverted_update txHash receipt block r)) ''status'' = JStr ''failed''
   \<and> js_prop (update_of (reverted_update txHash receipt block r)) ''error_message''
       = JStr ''Transaction failed on blockchain''"
proof (intro conjI impI)
  {
    assume h: "list_all (\<lambda>t. getTransactionReceipt E (w_txHash task) t = Inr None)
                 (poll_times 120000 2000 start start)"
    show w: "waitForReceipt E (w_txHash task) 120000 2000 start start
               = Inl ''Timeout waiting for transaction receipt''"
      by (rule waitForReceipt_timeout [OF h])
    show "settlement_watcher L E task start = map (timeout_update (w_txHash task)) (w_records task)"
      by (simp add: watcher_timeout [OF w] timeout_update_def)
  }
  {
    assume h: "poll_times 120000 2000 start start = pre @ t # post
       \<and> list_all (\<lambda>t. getTransactionReceipt E (w_txHash task) t = Inr None) pre
       \<and> getTransactionReceipt E (w_txHash task) t = Inr (Some receipt)
       \<and> \<not> rc_status receipt \<and> getBlock E (blockNumber receipt) = Inr block"
    show w: "waitForReceipt E (w_txHash task) 120000 2000 start start = Inr receipt"
      using h waitForReceipt_found [of 120000 2000 start start pre t post E "w_txHash task" receipt]
      by blast
    show "settlement_watcher L E task start
            = map (reverted_update (w_txHash task) receipt block) (w_records task)"
      using h by (simp add: watcher_reverted [OF w])
  }
  {
    assume "waitForReceipt E (w_txHash task) 120000 2000 start start = Inl m"
    then show "list_ex (\<lambda>t. getTransactionReceipt E (w_txHash task) t = Inl m)
          (poll_times 120000 2000 start start)
      \<or> (m = ''Timeout waiting for transaction receipt''
         \<and> list_all (\<lambda>t. getTransactionReceipt E (w_txHash task) t = Inr None)
              (poll_times 120000 2000 start start))"
      by (rule waitForReceipt_error)
  }
qed (simp_all add: timeout_update_fields reverted_update_fields)

lemma first_poll: "poll_times 120000 2000 s s = [] @ s # poll_times 120000 2000 s (s + 2000)"
  by (simp add: poll_times.simps [of 120000 2000 s s])

theorem C6_watcher_witness:
  "list_all (\<lambda>t. getTransactionReceipt env_silent (w_txHash task0) t = Inr None)
      (poll_times 120000 2000 1700000000000 1700000000000)
   \<and> settlement_watcher lib0 env_silent task0 1700000000000
       = map (timeout_update (w_txHash task0)) (w_records task0)
   \<and> getTransactionReceipt env_reverted (w_txHash task0) 1700000000000
       = Inr (Some (receipt0\<lparr>rc_status := False\<rparr>))
   \<and> \<not> rc_status (receipt0\<lparr>rc_status := False\<rparr>)
   \<and> getBlock env_reverted (blockNumber (receipt0\<lparr>rc_status := False\<rparr>)) = Inr (Some 1700000000)
   \<and> waitForReceipt env_reverted (w_txHash task0) 120000 2000 1700000000000 1700000000000
       = Inr (receipt0\<lparr>rc_status := False\<rparr>)
   \<and> settlement_watcher lib0 env_reverted task0 1700000000000
       = map (reverted_update (w_txHash task0) (receipt0\<lparr>rc_status := False\<rparr>) (Some 1700000000))
           (w_records task0)"
proof -
  have s: "list_all (\<lambda>t. getTransactionReceipt env_silent (w_txHash task0) t = Inr None)
             (poll_times 120000 2000 1700000000000 1700000000000)"
    by (simp add: env_silent_def list.pred_True)
  have r: "getTransactionReceipt env_reverted (w_txHash task0) 1700000000000
             = Inr (Some (receipt0\<lparr>rc_status := False\<rparr>))"
    by (simp add: env_reverted_def)
  have b: "getBlock env_reverted (blockNumber (receipt0\<lparr>rc_status := False\<rparr>)) = Inr (Some 1700000000)"
    by (simp add: env_reverted_def env0_def)
  show ?thesis
    using C6_watcher_failed_and_timeout
            [where E = env_silent and task = task0 and start = 1700000000000 and L = lib0]
          C6_watcher_failed_and_timeout
            [where E = env_reverted and task = task0 and start = 1700000000000 and L = lib0
               and pre = "[]" and t = 1700000000000
               and post = "poll_times 120000 2000 1700000000000 (1700000000000 + 2000)"
               and receipt = "receipt0\<lparr>rc_status := False\<rparr>" and block = "Some 1700000000"]
          s r b first_poll [of 1700000000000]
    by simp
qed

section \<open>Concurrent submissions\<close>

text \<open>
  C5, as the claim states it, fails: two requests of the same sender, the second reading
  its nonce before the first has broadcast. Both broadcasts carry the nonce 0 and the
  chain rejects the second.
\<close>

theorem C5_same_nonce_counterexample:
  "broadcasts (fst (run_schedule [0, 1, 0, 0, 0, 1, 1, 1]
                      (\<lparr>tx_count = (\<lambda>a. 0), broadcasts = []\<rparr>,
                       [new_submission addrA, new_submission addrA])))
     = [(addrA, 0, True), (addrA, 0, False)]"
  by (simp add: sub_step_def new_submission_def)

text \<open>
  C5, amended: nothing serializes the nonce acquisition of a sender; each submission
  carries the transaction count the chain had when the submission asked for it. In
  every interleaving of the steps of two submissions of one sender: when one submission
  ends before the other starts, they carry the counts \<open>n\<close> and \<open>n + 1\<close> and both are
  accepted; in every other interleaving both carry \<open>n\<close>, and the chain rejects the one
  that is broadcast second.
\<close>

theorem C5_nonces_in_every_interleaving:
  "list_all
     (\<lambda>sched.
        broadcasts (fst (run_schedule sched (c, [new_submission a, new_submission a])))
          = broadcasts c @
              (if sched = [0, 0, 0, 0, 1, 1, 1, 1] \<or> sched = [1, 1, 1, 1, 0, 0, 0, 0]
               then [(a, tx_count c a, True), (a, Suc (tx_count c a), True)]
               else [(a, tx_count c a, True), (a, tx_count c a, False)]))
     (interleavings 4 4)"
  by (simp add: numeral_eq_Suc sub_step_def new_submission_def)

theorem C5_nonces_witness:
  "broadcasts (fst (run_schedule [0, 0, 0, 0, 1, 1, 1, 1]
                      (\<lparr>tx_count = (\<lambda>a. 5), broadcasts = []\<rparr>,
                       [new_submission addrA, new_submission addrA])))
     = [(addrA, 5, True), (addrA, 6, True)]
   \<and> broadcasts (fst (run_schedule [0, 0, 1, 0, 1, 0, 1, 1]
                      (\<lparr>tx_count = (\<lambda>a. 5), broadcasts = []\<rparr>,
                       [new_submission addrA, new_submission addrA])))
     = [(addrA, 5, True), (addrA, 5, False)]"
  using C5_nonces_in_every_interleaving
          [of "\<lparr>tx_count = (\<lambda>a. 5), broadcasts = []\<rparr>" addrA]
  by (simp add: numeral_eq_Suc)

section \<open>Wallet creation\<close>




































section \<open>Encryption and decryption\<close>

lemma lone_surrogate_bytes: "utf8_encode [55296] = [239, 191, 189]"
  by (simp add: is_high_def utf8_of_cp_def)

lemma replacement_bytes: "utf8_encode [65533] = [239, 191, 189]"
  by (simp add: is_high_def is_low_def utf8_of_cp_def)

text \<open>
  C10, as the claim states it, fails at the string that is the single code unit D800,
  a surrogate without its partner: \<open>encrypt\<close> writes it as the bytes of U+FFFD, and
  \<open>decrypt\<close> returns U+FFFD.
\<close>

theorem C10_lone_surrogate_counterexample:
  "decrypt lib0 key0 (encrypt lib0 key0 iv0 [55296]) = Inr [65533]"
proof -
  have "encrypt lib0 key0 iv0 [55296] = encrypt lib0 key0 iv0 [65533]"
    by (simp only: encrypt_def lone_surrogate_bytes replacement_bytes)
  moreover have "decrypt lib0 key0 (encrypt lib0 key0 iv0 [65533]) = Inr [65533]"
    by (rule decrypt_encrypt) (simp_all add: lib0_cipher is_high_def is_low_def)
  ultimately show ?thesis by simp
qed

text \<open>
  C10, amended: for every key, every IV and every well-formed text (no surrogate code
  unit without its partner), \<open>decrypt\<close> returns the text \<open>encrypt\<close> was given, provided
  the cipher decrypts, under the same key and IV, what it encrypted. Every text made of
  code units below 256, as the private keys of the wallet store are, is well formed.
\<close>

theorem C10_decrypt_inverts_encrypt:
  "(gcm_decrypt L key iv (fst (gcm_encrypt L key iv (utf8_encode t)))
        (snd (gcm_encrypt L key iv (utf8_encode t))) = Some (utf8_encode t)
      \<and> well_formed t
    \<longrightarrow> decrypt L key (encrypt L key iv t) = Inr t)
   \<and> well_formed (ustr s)"
  by (simp add: decrypt_encrypt well_formed_ustr)

theorem C10_decrypt_inverts_encrypt_witness:
  "well_formed [72, 233, 55357, 56832]
   \<and> decrypt lib0 key0 (encrypt lib0 key0 iv0 [72, 233, 55357, 56832]) = Inr [72, 233, 55357, 56832]
   \<and> decrypt lib0 key0 (encrypt lib0 key0 iv0 (ustr ''0x01'')) = Inr (ustr ''0x01'')"
proof -
  have w: "well_formed [72, 233, 55357, 56832]"
    by (simp add: is_high_def is_low_def)
  show ?thesis
    using C10_decrypt_inverts_encrypt [of lib0 key0 iv0 "[72, 233, 55357, 56832]" "''0x01''"]
          C10_decrypt_inverts_encrypt [of lib0 key0 iv0 "ustr ''0x01''" "''0x01''"]
          w lib0_cipher
    by simp
qed








end
